theory Spec2Isabelle
  imports Main "HOL-Library.Word" "HOL-Library.AList"
begin

section \<open>The type registry (sal\_data.h, lines 54--203)\<close>

text \<open>The enumeration \<^verbatim>\<open>AttributeType\<close>, in the order of the source.\<close>

datatype AttributeType =
    ATTR_NULL | ATTR_SCALAR
  | ATTR_INT8 | ATTR_INT16 | ATTR_INT32 | ATTR_INT64
  | ATTR_UINT8 | ATTR_UINT16 | ATTR_UINT32 | ATTR_UINT64
  | ATTR_FLOAT32 | ATTR_FLOAT64 | ATTR_BOOL
  | ATTR_STRING | ATTR_ARRAY | ATTR_DICTIONARY | ATTR_DATA_OBJECT

text \<open>
  The native types that instantiate \<^verbatim>\<open>Atomic<T>\<close> and \<^verbatim>\<open>Array<T>\<close>, and the
  template arguments \<^verbatim>\<open>to_dtype<DT>\<close> distinguishes beyond them.
\<close>

datatype ctype =
    C_int8 | C_int16 | C_int32 | C_int64
  | C_uint8 | C_uint16 | C_uint32 | C_uint64
  | C_float | C_double | C_bool | C_string

datatype cpptype = Native ctype | T_Dictionary | T_IArray | T_Null | T_Other

text \<open>
  A value of a native type. Integers are machine words of their width; a \<^verbatim>\<open>float\<close> and a
  \<^verbatim>\<open>double\<close> are carried as their IEEE-754 bit patterns (no arithmetic is done on them
  by the code modelled here).
\<close>

datatype val =
    V_int8 "8 word" | V_int16 "16 word" | V_int32 "32 word" | V_int64 "64 word"
  | V_uint8 "8 word" | V_uint16 "16 word" | V_uint32 "32 word" | V_uint64 "64 word"
  | V_float "32 word" | V_double "64 word" | V_bool bool | V_string string

fun ctype_of :: "val \<Rightarrow> ctype" where
  "ctype_of (V_int8 _) = C_int8"
| "ctype_of (V_int16 _) = C_int16"
| "ctype_of (V_int32 _) = C_int32"
| "ctype_of (V_int64 _) = C_int64"
| "ctype_of (V_uint8 _) = C_uint8"
| "ctype_of (V_uint16 _) = C_uint16"
| "ctype_of (V_uint32 _) = C_uint32"
| "ctype_of (V_uint64 _) = C_uint64"
| "ctype_of (V_float _) = C_float"
| "ctype_of (V_double _) = C_double"
| "ctype_of (V_bool _) = C_bool"
| "ctype_of (V_string _) = C_string"

text \<open>\<^verbatim>\<open>T()\<close>, the value-initialised element \<^verbatim>\<open>std::vector<T>::resize\<close> fills with.\<close>

fun default_val :: "ctype \<Rightarrow> val" where
  "default_val C_int8 = V_int8 0"
| "default_val C_int16 = V_int16 0"
| "default_val C_int32 = V_int32 0"
| "default_val C_int64 = V_int64 0"
| "default_val C_uint8 = V_uint8 0"
| "default_val C_uint16 = V_uint16 0"
| "default_val C_uint32 = V_uint32 0"
| "default_val C_uint64 = V_uint64 0"
| "default_val C_float = V_float 0"
| "default_val C_double = V_double 0"
| "default_val C_bool = V_bool False"
| "default_val C_string = V_string []"

fun sizeof :: "ctype \<Rightarrow> nat" where
  "sizeof C_int8 = 1"
| "sizeof C_int16 = 2"
| "sizeof C_int32 = 4"
| "sizeof C_int64 = 8"
| "sizeof C_uint8 = 1"
| "sizeof C_uint16 = 2"
| "sizeof C_uint32 = 4"
| "sizeof C_uint64 = 8"
| "sizeof C_float = 4"
| "sizeof C_double = 8"
| "sizeof C_bool = 1"
| "sizeof C_string = 32"

section \<open>The JSON tree and the exceptions\<close>

text \<open>
  A \<^verbatim>\<open>Poco::Dynamic::Var\<close> is empty (JSON null), holds a value of a native type, or holds a
  \<^verbatim>\<open>Poco::JSON::Array::Ptr\<close> or a \<^verbatim>\<open>Poco::JSON::Object::Ptr\<close>. An object is its list of
  members; a key is looked up from the front (\<open>map_of\<close>) and stored with \<open>AList.update\<close>,
  so that a key has one value, as in Poco's map.
\<close>

datatype var = Empty | Holder val | JArray "var list" | JObject "(string \<times> var) list"

type_synonym object = "(string \<times> var) list"

text \<open>
  A message is the sequence of pieces streamed into it; \<open>Stringify j n\<close> is the text
  \<^verbatim>\<open>j->stringify(ss, n)\<close> writes, which stays symbolic.
\<close>

datatype msg_part = Text string | Stringify object nat

text \<open>
  Modelled from the spec: \<^verbatim>\<open>sal_exception.h\<close> is not among the sources. \<open>SALException\<close> is
  the one error kind of the decoders; it is a \<^verbatim>\<open>std::exception\<close> whose \<^verbatim>\<open>what()\<close> is the
  message it was built with. \<open>PocoException n\<close> is an exception of the JSON library whose
  \<^verbatim>\<open>what()\<close> is \<open>n\<close>; \<open>std_out_of_range\<close> and \<open>std_length_error\<close> are
  \<^verbatim>\<open>std::out_of_range\<close> and \<^verbatim>\<open>std::length_error\<close>.
\<close>

datatype exn =
    SALException "msg_part list" | PocoException string
  | std_out_of_range string | std_length_error string

fun what :: "exn \<Rightarrow> msg_part list" where
  "what (SALException m) = m"
| "what (PocoException n) = [Text n]"
| "what (std_out_of_range m) = [Text m]"
| "what (std_length_error m) = [Text m]"

text \<open>
  A call ends by returning, by throwing, by an access outside a \<^verbatim>\<open>std::vector\<close>
  (\<^verbatim>\<open>operator[]\<close> does not check: undefined behaviour), or in \<^verbatim>\<open>std::terminate\<close>
  when an exception leaves a function declared \<^verbatim>\<open>throw()\<close>. No handler catches the
  last two.
\<close>

datatype fault = Exn exn | UB string | Terminated exn

definition NullPointerException :: exn where
  "NullPointerException = PocoException ''Null pointer''"

definition InvalidAccessException :: exn where
  "InvalidAccessException = PocoException ''Invalid access''"

text \<open>\<^verbatim>\<open>Poco::SharedPtr::operator->\<close>: a null pointer throws.\<close>

definition deref :: "'a option \<Rightarrow> fault + 'a" where
  "deref p = (case p of None \<Rightarrow> Inl (Exn NullPointerException) | Some x \<Rightarrow> Inr x)"

text \<open>A \<^verbatim>\<open>try\<close> block with a handler for every exception.\<close>

fun try_catch :: "fault + 'a \<Rightarrow> (exn \<Rightarrow> fault + 'a) \<Rightarrow> fault + 'a" where
  "try_catch (Inr x) h = Inr x"
| "try_catch (Inl (Exn e)) h = h e"
| "try_catch (Inl (UB u)) h = Inl (UB u)"
| "try_catch (Inl (Terminated e)) h = Inl (Terminated e)"

text \<open>
  A function declared \<^verbatim>\<open>throw()\<close>: an exception that leaves its body does not reach
  the caller; the program is terminated (through \<^verbatim>\<open>std::unexpected\<close> before C++17).
\<close>

definition declared_throw_none :: "fault + 'a \<Rightarrow> fault + 'a" where
  "declared_throw_none r = (case r of Inl (Exn e) \<Rightarrow> Inl (Terminated e) | _ \<Rightarrow> r)"

text \<open>
  The services of the JSON library and of the platform that the code consumes and that
  are not part of it: the conversions of \<^verbatim>\<open>Var::convert<T>\<close> between different types
  (what a holder of one type gives when another type is asked for), the base64 codec, and
  the bytes of a value in memory.
\<close>

record poco =
  to_string :: "var \<Rightarrow> exn + string"
  to_bool :: "var \<Rightarrow> exn + bool"
  to_integer :: "ctype \<Rightarrow> var \<Rightarrow> exn + int"
  to_float :: "var \<Rightarrow> exn + 32 word"
  to_double :: "var \<Rightarrow> exn + 64 word"
  base64_encode :: "8 word list \<Rightarrow> string"
  base64_decode :: "string \<Rightarrow> 8 word list"
  to_bytes :: "val \<Rightarrow> 8 word list"
  of_bytes :: "ctype \<Rightarrow> 8 word list \<Rightarrow> val"

fun cross :: "poco \<Rightarrow> ctype \<Rightarrow> var \<Rightarrow> exn + val" where
  "cross P C_int8 v = map_sum id (\<lambda>i. V_int8 (word_of_int i)) (to_integer P C_int8 v)"
| "cross P C_int16 v = map_sum id (\<lambda>i. V_int16 (word_of_int i)) (to_integer P C_int16 v)"
| "cross P C_int32 v = map_sum id (\<lambda>i. V_int32 (word_of_int i)) (to_integer P C_int32 v)"
| "cross P C_int64 v = map_sum id (\<lambda>i. V_int64 (word_of_int i)) (to_integer P C_int64 v)"
| "cross P C_uint8 v = map_sum id (\<lambda>i. V_uint8 (word_of_int i)) (to_integer P C_uint8 v)"
| "cross P C_uint16 v = map_sum id (\<lambda>i. V_uint16 (word_of_int i)) (to_integer P C_uint16 v)"
| "cross P C_uint32 v = map_sum id (\<lambda>i. V_uint32 (word_of_int i)) (to_integer P C_uint32 v)"
| "cross P C_uint64 v = map_sum id (\<lambda>i. V_uint64 (word_of_int i)) (to_integer P C_uint64 v)"
| "cross P C_float v = map_sum id V_float (to_float P v)"
| "cross P C_double v = map_sum id V_double (to_double P v)"
| "cross P C_bool v = map_sum id V_bool (to_bool P v)"
| "cross P C_string v = map_sum id V_string (to_string P v)"

text \<open>
  \<^verbatim>\<open>Var::convert<T>()\<close>: an empty Var throws; a holder of \<^verbatim>\<open>T\<close> itself gives its
  value; every other holder is converted by the library.
\<close>

definition convert :: "poco \<Rightarrow> ctype \<Rightarrow> var \<Rightarrow> exn + val" where
  "convert P T v =
     (case v of
        Empty \<Rightarrow> Inl InvalidAccessException
      | Holder x \<Rightarrow> if ctype_of x = T then Inr x else cross P T v
      | _ \<Rightarrow> cross P T v)"

definition convert_string :: "poco \<Rightarrow> var \<Rightarrow> exn + string" where
  "convert_string P v =
     (case v of
        Empty \<Rightarrow> Inl InvalidAccessException
      | Holder (V_string s) \<Rightarrow> Inr s
      | _ \<Rightarrow> to_string P v)"

text \<open>The accessors of \<^verbatim>\<open>Poco::JSON::Object\<close> the code uses.\<close>

definition Object_get :: "object \<Rightarrow> string \<Rightarrow> var" where
  "Object_get j key = (case map_of j key of None \<Rightarrow> Empty | Some v \<Rightarrow> v)"

definition Object_has :: "object \<Rightarrow> string \<Rightarrow> bool" where
  "Object_has j key = (map_of j key \<noteq> None)"

definition Object_set :: "string \<Rightarrow> var \<Rightarrow> object \<Rightarrow> object" where
  "Object_set key v j = AList.update key v j"

definition getValue :: "poco \<Rightarrow> ctype \<Rightarrow> object \<Rightarrow> string \<Rightarrow> exn + val" where
  "getValue P T j key = convert P T (Object_get j key)"

definition getValue_string :: "poco \<Rightarrow> object \<Rightarrow> string \<Rightarrow> exn + string" where
  "getValue_string P j key = convert_string P (Object_get j key)"

text \<open>\<^verbatim>\<open>getObject\<close> and \<^verbatim>\<open>getArray\<close> give a null pointer (\<open>None\<close>) for a missing key or a
  member of another kind.\<close>

definition getObject :: "object \<Rightarrow> string \<Rightarrow> object option" where
  "getObject j key = (case map_of j key of Some (JObject o') \<Rightarrow> Some o' | _ \<Rightarrow> None)"

definition getArray :: "object \<Rightarrow> string \<Rightarrow> var list option" where
  "getArray j key = (case map_of j key of Some (JArray a) \<Rightarrow> Some a | _ \<Rightarrow> None)"

definition isArray :: "object \<Rightarrow> string \<Rightarrow> bool" where
  "isArray j key = (case map_of j key of Some (JArray a) \<Rightarrow> True | _ \<Rightarrow> False)"

definition isObject :: "object \<Rightarrow> string \<Rightarrow> bool" where
  "isObject j key = (case map_of j key of Some (JObject o') \<Rightarrow> True | _ \<Rightarrow> False)"

definition isNull :: "object \<Rightarrow> string \<Rightarrow> bool" where
  "isNull j key = (case map_of j key of None \<Rightarrow> True | Some Empty \<Rightarrow> True | _ \<Rightarrow> False)"

definition getNames :: "object \<Rightarrow> string list" where
  "getNames j = map fst j"

text \<open>\<^verbatim>\<open>to_dtype<DT>()\<close> and \<^verbatim>\<open>to_dtype_name<DT>()\<close>, case by case as in the source.\<close>

fun to_dtype :: "cpptype \<Rightarrow> exn + AttributeType" where
  "to_dtype (Native C_int64) = Inr ATTR_INT64"
| "to_dtype (Native C_int32) = Inr ATTR_INT32"
| "to_dtype (Native C_int16) = Inr ATTR_INT16"
| "to_dtype (Native C_int8) = Inr ATTR_INT8"
| "to_dtype (Native C_uint64) = Inr ATTR_UINT64"
| "to_dtype (Native C_uint32) = Inr ATTR_UINT32"
| "to_dtype (Native C_uint16) = Inr ATTR_UINT16"
| "to_dtype (Native C_uint8) = Inr ATTR_UINT8"
| "to_dtype (Native C_float) = Inr ATTR_FLOAT32"
| "to_dtype (Native C_double) = Inr ATTR_FLOAT64"
| "to_dtype (Native C_bool) = Inr ATTR_BOOL"
| "to_dtype (Native C_string) = Inr ATTR_STRING"
| "to_dtype T_Dictionary = Inr ATTR_DICTIONARY"
| "to_dtype T_IArray = Inr ATTR_ARRAY"
| "to_dtype T_Null = Inr ATTR_NULL"
| "to_dtype T_Other =
     Inl (SALException [Text ''type is not a derived from Attribute base class''])"

fun to_dtype_name :: "cpptype \<Rightarrow> exn + string" where
  "to_dtype_name (Native C_int64) = Inr ''int64''"
| "to_dtype_name (Native C_int32) = Inr ''int32''"
| "to_dtype_name (Native C_int16) = Inr ''int16''"
| "to_dtype_name (Native C_int8) = Inr ''int8''"
| "to_dtype_name (Native C_uint64) = Inr ''uint64''"
| "to_dtype_name (Native C_uint32) = Inr ''uint32''"
| "to_dtype_name (Native C_uint16) = Inr ''uint16''"
| "to_dtype_name (Native C_uint8) = Inr ''uint8''"
| "to_dtype_name (Native C_float) = Inr ''float32''"
| "to_dtype_name (Native C_double) = Inr ''float64''"
| "to_dtype_name (Native C_bool) = Inr ''bool''"
| "to_dtype_name (Native C_string) = Inr ''string''"
| "to_dtype_name _ =
     Inl (SALException [Text ''data type valid as Array element or Atomic value''])"

section \<open>Attribute and Atomic (lines 230--477)\<close>

record attribute_base =
  m_type :: AttributeType
  m_type_name :: string
  m_group_name :: string
  m_is_summary :: bool
  m_description :: string

definition Attribute_ctor :: "AttributeType \<Rightarrow> string \<Rightarrow> attribute_base" where
  "Attribute_ctor ty nm =
     \<lparr>m_type = ty, m_type_name = nm, m_group_name = ''core'',
      m_is_summary = False, m_description = []\<rparr>"

record atomic = attribute_base +
  atomic_T :: ctype
  m_value :: val

text \<open>\<^verbatim>\<open>Atomic<T>(T _value)\<close>, with \<^verbatim>\<open>T\<close> the type of the value.\<close>

definition Atomic_ctor :: "val \<Rightarrow> fault + atomic" where
  "Atomic_ctor v =
     (case to_dtype (Native (ctype_of v)) of
        Inl e \<Rightarrow> Inl (Exn e)
      | Inr ty \<Rightarrow>
          (case to_dtype_name (Native (ctype_of v)) of
             Inl e \<Rightarrow> Inl (Exn e)
           | Inr nm \<Rightarrow>
               Inr (attribute_base.extend (Attribute_ctor ty nm)
                      \<lparr>atomic_T = ctype_of v, m_value = v\<rparr>)))"

definition Atomic_encode :: "atomic \<Rightarrow> object" where
  "Atomic_encode a =
     Object_set ''value'' (Holder (m_value a))
       (Object_set ''type'' (Holder (V_string (m_type_name a))) [])"

definition Atomic_decode :: "poco \<Rightarrow> ctype \<Rightarrow> object \<Rightarrow> fault + atomic" where
  "Atomic_decode P T json =
     try_catch
       (case getValue_string P json ''type'' of
          Inl e \<Rightarrow> Inl (Exn e)
        | Inr t \<Rightarrow>
            (case to_dtype_name (Native T) of
               Inl e \<Rightarrow> Inl (Exn e)
             | Inr nm \<Rightarrow>
                 if t \<noteq> nm
                 then Inl (Exn (SALException
                        [Text ''type name in json does not match template datatype'']))
                 else (case getValue P T json ''value'' of
                         Inl e \<Rightarrow> Inl (Exn e)
                       | Inr v \<Rightarrow> Atomic_ctor v)))
       (\<lambda>e. Inl (Exn (SALException
          [Text (''JSON object does not define a valid SAL scalar/atomic attribute. json obejct is ''
                 @ [CHR 0x0A]),
           Stringify json 2])))"

section \<open>Strided arrays (lines 480--1082)\<close>

text \<open>
  \<^verbatim>\<open>std::vector::operator[]\<close> does not check its index: inside the vector it reads or
  writes the element, outside it is undefined behaviour.
\<close>

definition vec_read :: "'a list \<Rightarrow> nat \<Rightarrow> fault + 'a" where
  "vec_read xs i =
     (if i < length xs then Inr (xs ! i) else Inl (UB ''vector index out of range''))"

definition vec_write :: "'a list \<Rightarrow> nat \<Rightarrow> 'a \<Rightarrow> fault + 'a list" where
  "vec_write xs i x =
     (if i < length xs then Inr (xs[i := x]) else Inl (UB ''vector index out of range''))"

text \<open>A signed index used as a \<^verbatim>\<open>size_t\<close> subscript.\<close>

definition size_t_of :: "int \<Rightarrow> nat" where
  "size_t_of i = nat (i mod 2 ^ 64)"

record iarray = attribute_base +
  m_dimension :: "8 word"
  m_shape :: "64 word list"
  m_strides :: "64 word list"

record array = iarray +
  array_T :: ctype
  m_element_type :: AttributeType
  m_element_type_name :: string
  data :: "val list"

text \<open>
  The loop of the constructor of \<^verbatim>\<open>IArray\<close>:
  \<^verbatim>\<open>while (i >= 0) { m_strides[i] = m_strides[i + 1] * m_shape[i + 1]; i--; }\<close>.
  The counter is an \<^verbatim>\<open>int16_t\<close> that starts below 255 and stops at -1, so it is an
  \<open>int\<close> here; the strides are \<^verbatim>\<open>uint64_t\<close> and their product wraps.
\<close>

function stride_loop :: "64 word list \<Rightarrow> 64 word list \<Rightarrow> int \<Rightarrow> fault + 64 word list" where
  "stride_loop shape strides i =
     (if i \<ge> 0 then
        (case vec_read strides (size_t_of (i + 1)) of
           Inl f \<Rightarrow> Inl f
         | Inr s \<Rightarrow>
             (case vec_read shape (size_t_of (i + 1)) of
                Inl f \<Rightarrow> Inl f
              | Inr d \<Rightarrow>
                  (case vec_write strides (size_t_of i) (s * d) of
                     Inl f \<Rightarrow> Inl f
                   | Inr strides' \<Rightarrow> stride_loop shape strides' (i - 1))))
      else Inr strides)"
  by pat_completeness auto
termination
  by (relation "measure (\<lambda>(shape, strides, i). nat (i + 1))") auto

declare stride_loop.simps [simp del]

text \<open>
  \<^verbatim>\<open>IArray(ShapeType _shape)\<close>. \<^verbatim>\<open>m_dimension\<close> is a \<^verbatim>\<open>uint8_t\<close>: the number of
  dimensions modulo 256. \<^verbatim>\<open>m_strides[i] = 1\<close> is executed before the loop, for
  \<^verbatim>\<open>i = m_dimension - 1\<close>, whatever \<^verbatim>\<open>i\<close> is.
\<close>

definition IArray_ctor :: "64 word list \<Rightarrow> fault + iarray" where
  "IArray_ctor shape =
     (let dimension = (of_nat (length shape) :: 8 word);
          strides = replicate (unat dimension) (0 :: 64 word);
          i = int (unat dimension) - 1
      in case vec_write strides (size_t_of i) 1 of
           Inl f \<Rightarrow> Inl f
         | Inr strides1 \<Rightarrow>
             (case stride_loop shape strides1 (i - 1) of
                Inl f \<Rightarrow> Inl f
              | Inr strides2 \<Rightarrow>
                  Inr (attribute_base.extend (Attribute_ctor ATTR_ARRAY ''array'')
                         \<lparr>m_dimension = dimension, m_shape = shape, m_strides = strides2\<rparr>)))"

text \<open>
  \<^verbatim>\<open>Array(ShapeType _shape, AttributeType _type, const std::string _type_name)\<close>: the
  buffer has the product of the extents (a \<^verbatim>\<open>uint64_t\<close>) elements.
  \<^verbatim>\<open>data.resize(element_size)\<close> throws \<^verbatim>\<open>std::length_error\<close> for more elements than
  \<^verbatim>\<open>max_size()\<close>, which is \<^verbatim>\<open>PTRDIFF_MAX / sizeof(T)\<close> (the standard library of GCC
  on a 64-bit target). Up to \<^verbatim>\<open>max_size()\<close> the memory is taken to be there: whether
  \<^verbatim>\<open>std::bad_alloc\<close> is thrown depends on the memory free at the call, which the
  source does not determine.
\<close>

definition max_size :: "ctype \<Rightarrow> nat" where
  "max_size T = (2 ^ 63 - 1) div sizeof T"

definition Array_ctor3 :: "ctype \<Rightarrow> 64 word list \<Rightarrow> AttributeType \<Rightarrow> string \<Rightarrow> fault + array" where
  "Array_ctor3 T shape ty nm =
     (case IArray_ctor shape of
        Inl f \<Rightarrow> Inl f
      | Inr base \<Rightarrow>
          (let element_size = foldl (\<lambda>n d. n * d) (1 :: 64 word) shape
           in if unat element_size > max_size T
              then Inl (Exn (std_length_error ''vector::_M_default_append''))
              else Inr (iarray.extend base
                     \<lparr>array_T = T, m_element_type = ty, m_element_type_name = nm,
                      data = replicate (unat element_size) (default_val T)\<rparr>)))"

text \<open>\<^verbatim>\<open>Array(ShapeType _shape)\<close> delegates with the registry's entries for \<^verbatim>\<open>T\<close>.\<close>

definition Array_ctor :: "ctype \<Rightarrow> 64 word list \<Rightarrow> fault + array" where
  "Array_ctor T shape =
     (case to_dtype (Native T) of
        Inl e \<Rightarrow> Inl (Exn e)
      | Inr ty \<Rightarrow>
          (case to_dtype_name (Native T) of
             Inl e \<Rightarrow> Inl (Exn e)
           | Inr nm \<Rightarrow> Array_ctor3 T shape ty nm))"

text \<open>\<^verbatim>\<open>class BoolArray : public Array<uint8_t>\<close>.\<close>

definition BoolArray_ctor :: "64 word list \<Rightarrow> fault + array" where
  "BoolArray_ctor shape = Array_ctor3 C_uint8 shape ATTR_BOOL ''bool''"

definition Array_size :: "array \<Rightarrow> 64 word" where
  "Array_size a = of_nat (length (data a))"



text \<open>
  The loop of \<^verbatim>\<open>at()\<close> over the dimensions. \<open>dim_index\<close> is the
  \<^verbatim>\<open>std::array<int64_t, 10>\<close> of the arguments; the counter \<open>i\<close> stays below
  \<^verbatim>\<open>m_dimension\<close>, which is at most 10 when the loop is reached. The bound is
  \<^verbatim>\<open>m_shape[i] - 1UL\<close>, computed in \<^verbatim>\<open>uint64_t\<close>.
\<close>

function at_loop :: "array \<Rightarrow> 64 word list \<Rightarrow> nat \<Rightarrow> 64 word \<Rightarrow> fault + 64 word" where
  "at_loop a dim_index i element_index =
     (if i < unat (m_dimension a) then
        (case vec_read dim_index i of
           Inl f \<Rightarrow> Inl f
         | Inr d \<Rightarrow>
             (case vec_read (m_shape a) i of
                Inl f \<Rightarrow> Inl f
              | Inr extent \<Rightarrow>
                  if d <s 0 \<or> d > extent - 1
                  then Inl (Exn (std_out_of_range
                         ''An array index is missing or is out of bounds.''))
                  else (case vec_read (m_strides a) i of
                          Inl f \<Rightarrow> Inl f
                        | Inr s \<Rightarrow> at_loop a dim_index (i + 1) (element_index + d * s))))
      else Inr element_index)"
  by pat_completeness auto
termination
  by (relation "measure (\<lambda>(a, dim_index, i, element_index). unat (m_dimension a) - i)") auto

declare at_loop.simps [simp del]

text \<open>
  \<^verbatim>\<open>at(int i0, int64_t i1 = -1, ..., int64_t i9 = -1)\<close>: \<open>i0\<close> is the first argument
  and \<open>rest\<close> the arguments given after it; the missing ones are -1. \<open>at_index\<close> is
  the body up to the index of the element: it ends with that index or with the exception
  the body throws. \<open>Array_at\<close> is the call: the function is declared \<^verbatim>\<open>throw()\<close>, so
  an exception of the body terminates the program instead of reaching the caller.
\<close>

definition at_index :: "array \<Rightarrow> 32 word \<Rightarrow> 64 word list \<Rightarrow> fault + 64 word" where
  "at_index a i0 rest =
     (if unat (m_dimension a) > 10
      then Inl (Exn (std_out_of_range
             ''The at() method can only be used with arrays of 10 dimensions of less.''))
      else at_loop a (scast i0 # take 9 (rest @ replicate 9 (- 1))) 0 0)"

definition Array_at :: "array \<Rightarrow> 32 word \<Rightarrow> 64 word list \<Rightarrow> fault + val" where
  "Array_at a i0 rest =
     declared_throw_none
       (case at_index a i0 rest of
          Inl f \<Rightarrow> Inl f
        | Inr element_index \<Rightarrow> vec_read (data a) (unat element_index))"

text \<open>
  \<^verbatim>\<open>encode_shape\<close>: \<^verbatim>\<open>for (uint8_t i = 0; i < m_shape.size(); i++) shape->add(m_shape[i])\<close>.
  The counter is eight bits wide and wraps from 255 to 0, so the loop ends only when the
  shape has at most 255 extents; it is a partial function, \<open>None\<close> when it runs forever.
\<close>

partial_function (option) encode_shape_loop ::
  "64 word list \<Rightarrow> 8 word \<Rightarrow> var list \<Rightarrow> var list option" where
  "encode_shape_loop shape i acc =
     (if unat i < length shape
      then encode_shape_loop shape (i + 1) (acc @ [Holder (V_uint64 (shape ! unat i))])
      else Some acc)"

definition encode_shape :: "array \<Rightarrow> var list option" where
  "encode_shape a = encode_shape_loop (m_shape a) 0 []"

text \<open>\<^verbatim>\<open>Array<T>::encode_summary\<close>: a new object with the one member \<^verbatim>\<open>shape\<close>.\<close>

definition Array_encode_summary :: "array \<Rightarrow> object option" where
  "Array_encode_summary a =
     (case encode_shape a of
        None \<Rightarrow> None
      | Some shape \<Rightarrow> Some (Object_set ''shape'' (JArray shape) []))"

text \<open>The accessors of \<^verbatim>\<open>Poco::JSON::Array\<close>; their index is an \<^verbatim>\<open>unsigned int\<close>.\<close>

definition Array_get :: "var list \<Rightarrow> nat \<Rightarrow> var" where
  "Array_get js i = (if i < length js then js ! i else Empty)"

definition Array_getArray :: "var list \<Rightarrow> nat \<Rightarrow> var list option" where
  "Array_getArray js i = (case Array_get js i of JArray a \<Rightarrow> Some a | _ \<Rightarrow> None)"

definition convert_uint64 :: "poco \<Rightarrow> var \<Rightarrow> exn + 64 word" where
  "convert_uint64 P v =
     (case v of
        Empty \<Rightarrow> Inl InvalidAccessException
      | Holder (V_uint64 w) \<Rightarrow> Inr w
      | _ \<Rightarrow> map_sum id word_of_int (to_integer P C_uint64 v))"

text \<open>
  \<^verbatim>\<open>decode_shape\<close>:
  \<^verbatim>\<open>for (uint8_t i = 0; i < encoded->size(); i++) shape[i] = encoded->getElement<uint64_t>(i)\<close>,
  with the same eight-bit counter.
\<close>

partial_function (option) decode_shape_loop ::
  "poco \<Rightarrow> var list \<Rightarrow> 8 word \<Rightarrow> 64 word list \<Rightarrow> (fault + 64 word list) option" where
  "decode_shape_loop P encoded i shape =
     (if unat i < length encoded then
        (case convert_uint64 P (Array_get encoded (unat i)) of
           Inl e \<Rightarrow> Some (Inl (Exn e))
         | Inr w \<Rightarrow>
             (case vec_write shape (unat i) w of
                Inl f \<Rightarrow> Some (Inl f)
              | Inr shape' \<Rightarrow> decode_shape_loop P encoded (i + 1) shape'))
      else Some (Inr shape))"

definition decode_shape :: "poco \<Rightarrow> var list option \<Rightarrow> (fault + 64 word list) option" where
  "decode_shape P encoded_ptr =
     (case deref encoded_ptr of
        Inl f \<Rightarrow> Some (Inl f)
      | Inr encoded \<Rightarrow> decode_shape_loop P encoded 0 (replicate (length encoded) 0))"



definition encoding :: "array \<Rightarrow> string" where
  "encoding a = (if m_element_type_name a = ''string'' then ''list'' else ''base64'')"


text \<open>
  \<^verbatim>\<open>decode_data\<close>: \<^verbatim>\<open>data_pointer()\<close> throws for the element type name
  \<^verbatim>\<open>string\<close>; otherwise the decoder's bytes overwrite the front of the buffer (a stream
  read does not throw and stops at the end of its input), and the buffer keeps its length.
\<close>

definition decode_data :: "poco \<Rightarrow> array \<Rightarrow> string \<Rightarrow> fault + array" where
  "decode_data P a b64 =
     (if m_element_type_name a = ''string''
      then Inl (Exn (SALException [Text ''Should not use Array<String>::data_pointer()'']))
      else
        (let sz = sizeof (array_T a);
             got = take (length (data a) * sz) (base64_decode P b64);
             mem = got @ drop (length got) (concat (map (to_bytes P) (data a)))
         in Inr (a\<lparr>data :=
                    map (\<lambda>k. of_bytes P (array_T a) (take sz (drop (k * sz) mem)))
                      [0 ..< length (data a)]\<rparr>)))"

text \<open>
  \<^verbatim>\<open>decode_data_from_json_array(array, json, dimension, offset)\<close>, with the counter \<open>i\<close>
  of its loop; the array is updated in place, so it is passed on and returned.
  \<^verbatim>\<open>dimension == (array->dimension() - 1)\<close> compares as \<^verbatim>\<open>size_t\<close>. (The line it
  prints to \<^verbatim>\<open>std::cout\<close> is left out.)
\<close>

partial_function (option) decode_data_from_json_array ::
  "poco \<Rightarrow> array \<Rightarrow> var list option \<Rightarrow> 8 word \<Rightarrow> 64 word \<Rightarrow> 64 word
     \<Rightarrow> (fault + array) option" where
  "decode_data_from_json_array P a json dimension offset i =
     (case vec_read (m_shape a) (unat dimension) of
        Inl f \<Rightarrow> Some (Inl f)
      | Inr extent \<Rightarrow>
          if i < extent then
            (case deref json of
               Inl f \<Rightarrow> Some (Inl f)
             | Inr js \<Rightarrow>
                 if unat dimension = size_t_of (int (length (m_shape a)) - 1) then
                   (case convert P (array_T a) (Array_get js (unat (ucast i :: 32 word))) of
                      Inl e \<Rightarrow> Some (Inl (Exn e))
                    | Inr x \<Rightarrow>
                        (case vec_write (data a) (unat (offset + i)) x of
                           Inl f \<Rightarrow> Some (Inl f)
                         | Inr data' \<Rightarrow>
                             decode_data_from_json_array P (a\<lparr>data := data'\<rparr>) json
                               dimension offset (i + 1)))
                 else
                   (case vec_read (m_strides a) (unat dimension) of
                      Inl f \<Rightarrow> Some (Inl f)
                    | Inr s \<Rightarrow>
                        Option.bind
                          (decode_data_from_json_array P a
                             (Array_getArray js (unat (ucast i :: 32 word)))
                             (dimension + 1) (offset + i * s) 0)
                          (\<lambda>r. case r of
                                  Inl f \<Rightarrow> Some (Inl f)
                                | Inr a' \<Rightarrow>
                                    decode_data_from_json_array P a' json dimension offset
                                      (i + 1))))
          else Some (Inr a))"

text \<open>
  \<^verbatim>\<open>Array<T>::decode\<close>. There is no \<^verbatim>\<open>try\<close> block: what the accessors throw leaves
  the function as it is. In the summary branch \<^verbatim>\<open>arr\<close> is still the null pointer it
  was initialised with when \<^verbatim>\<open>arr->m_is_summary = true\<close> is executed.
\<close>

definition quoted :: "string \<Rightarrow> string" where
  "quoted s = [CHR 0x60] @ s @ [CHR 0x60]"

definition Array_decode :: "poco \<Rightarrow> ctype \<Rightarrow> object \<Rightarrow> (fault + array) option" where
  "Array_decode P T json =
     (case getValue_string P json ''type'' of
        Inl e \<Rightarrow> Some (Inl (Exn e))
      | Inr t \<Rightarrow>
          if t \<noteq> ''array''
          then Some (Inl (Exn (SALException
                 [Text (''type does not match, '' @ quoted ''array'' @ '' is expected here'')])))
          else if \<not> Object_has json ''value'' then
            (case deref (None :: array option) of
               Inl f \<Rightarrow> Some (Inl f)
             | Inr arr0 \<Rightarrow>
                 if \<not> isArray json ''shape''
                 then Some (Inl (Exn (SALException [Text ''decoded shape is not an array''])))
                 else
                   (case decode_shape P (getArray json ''shape'') of
                      None \<Rightarrow> None
                    | Some (Inl f) \<Rightarrow> Some (Inl f)
                    | Some (Inr shape) \<Rightarrow>
                        (case Array_ctor T shape of
                           Inl f \<Rightarrow> Some (Inl f)
                         | Inr arr \<Rightarrow> Some (Inr (arr\<lparr>data := []\<rparr>)))))
          else
            (case deref (getObject json ''value'') of
               Inl f \<Rightarrow> Some (Inl f)
             | Inr array_definition \<Rightarrow>
                 (case getValue_string P array_definition ''type'' of
                    Inl e \<Rightarrow> Some (Inl (Exn e))
                  | Inr input_type \<Rightarrow>
                      (case to_dtype_name (Native T) of
                         Inl e \<Rightarrow> Some (Inl (Exn e))
                       | Inr nm \<Rightarrow>
                           if input_type \<noteq> ''bool'' \<and> input_type \<noteq> nm
                           then Some (Inl (Exn (SALException
                                  [Text ''internal element type and input json data type does not match''])))
                           else
                             (case getValue_string P array_definition ''encoding'' of
                                Inl e \<Rightarrow> Some (Inl (Exn e))
                              | Inr enc \<Rightarrow>
                                  if \<not> (enc = ''base64'' \<or> enc = ''list'')
                                  then Some (Inl (Exn (SALException
                                         [Text ''encoding is not supported''])))
                                  else
                                    (case decode_shape P (getArray array_definition ''shape'') of
                                       None \<Rightarrow> None
                                     | Some (Inl f) \<Rightarrow> Some (Inl f)
                                     | Some (Inr shape) \<Rightarrow>
                                         (case Array_ctor T shape of
                                            Inl f \<Rightarrow> Some (Inl f)
                                          | Inr arr0 \<Rightarrow>
                                              (let arr = arr0\<lparr>m_is_summary := False\<rparr>
                                               in if m_element_type_name arr = ''string''
                                                  then decode_data_from_json_array P arr
                                                         (getArray array_definition ''data'') 0 0 0
                                                  else
                                                    (case getValue_string P array_definition ''data'' of
                                                       Inl e \<Rightarrow> Some (Inl (Exn e))
                                                     | Inr data_str \<Rightarrow>
                                                         Some (decode_data P arr data_str))))))))))"

text \<open>
  The macro \<^verbatim>\<open>SAL_REPORT_DECODE_ERROR(e, json)\<close>, used in a handler of the function
  \<open>func\<close>: the exception it throws.
\<close>

definition SAL_REPORT_DECODE_ERROR :: "string \<Rightarrow> exn \<Rightarrow> object \<Rightarrow> exn" where
  "SAL_REPORT_DECODE_ERROR func e json =
     SALException
       ([Text ''JSON object does not define a valid SAL object in function: '', Text func,
         Text [CHR 0x0A]]
        @ what e
        @ [Text [CHR 0x0A], Text ('' json object: '' @ [CHR 0x0A]), Stringify json 2])"

text \<open>
  \<^verbatim>\<open>decode_array\<close>: only the two reads of the element type name are inside the
  \<^verbatim>\<open>try\<close> block. \<^verbatim>\<open>BoolArray::decode\<close> is the inherited \<^verbatim>\<open>Array<uint8_t>::decode\<close>.
\<close>

definition decode_array :: "poco \<Rightarrow> object \<Rightarrow> (fault + array) option" where
  "decode_array P json =
     (case try_catch
             (case deref (getObject json ''value'') of
                Inl f \<Rightarrow> Inl f
              | Inr array_definition \<Rightarrow>
                  (case getValue_string P array_definition ''type'' of
                     Inl e \<Rightarrow> Inl (Exn e)
                   | Inr n \<Rightarrow> Inr n))
             (\<lambda>e. Inl (Exn (SAL_REPORT_DECODE_ERROR ''decode_array'' e json))) of
        Inl f \<Rightarrow> Some (Inl f)
      | Inr el_type_name \<Rightarrow>
          if el_type_name = ''int8'' then Array_decode P C_int8 json
          else if el_type_name = ''int16'' then Array_decode P C_int16 json
          else if el_type_name = ''int32'' then Array_decode P C_int32 json
          else if el_type_name = ''int64'' then Array_decode P C_int64 json
          else if el_type_name = ''uint8'' then Array_decode P C_uint8 json
          else if el_type_name = ''uint16'' then Array_decode P C_uint16 json
          else if el_type_name = ''uint32'' then Array_decode P C_uint32 json
          else if el_type_name = ''uint64'' then Array_decode P C_uint64 json
          else if el_type_name = ''float32'' then Array_decode P C_float json
          else if el_type_name = ''float64'' then Array_decode P C_double json
          else if el_type_name = ''bool'' then Array_decode P C_uint8 json
          else if el_type_name = ''string'' then Array_decode P C_string json
          else Some (Inl (Exn (SALException
                 [Text (''data type string '' @ [CHR 0x60] @ el_type_name @ [CHR 0x60]
                        @ '' is not supported'')]))))"

section \<open>Dictionary and the dispatcher (lines 1136--1319)\<close>

datatype attribute =
    Null attribute_base
  | Atomic atomic
  | Array array
  | Dictionary attribute_base "(string \<times> attribute) list"

type_synonym dictionary = "attribute_base \<times> (string \<times> attribute) list"

definition Dictionary_ctor :: dictionary where
  "Dictionary_ctor = (Attribute_ctor ATTR_DICTIONARY ''dictionary'', [])"

definition Dictionary_set :: "string \<Rightarrow> attribute \<Rightarrow> dictionary \<Rightarrow> dictionary" where
  "Dictionary_set key a d = (fst d, AList.update key a (snd d))"

definition Dictionary_has :: "dictionary \<Rightarrow> string \<Rightarrow> bool" where
  "Dictionary_has d key = (map_of (snd d) key \<noteq> None)"

text \<open>\<^verbatim>\<open>get\<close> is \<^verbatim>\<open>std::map::at\<close>, which throws for an absent key.\<close>

definition Dictionary_get :: "dictionary \<Rightarrow> string \<Rightarrow> fault + attribute" where
  "Dictionary_get d key =
     (case map_of (snd d) key of
        None \<Rightarrow> Inl (Exn (std_out_of_range ''map::at''))
      | Some a \<Rightarrow> Inr a)"

definition Dictionary_remove :: "string \<Rightarrow> dictionary \<Rightarrow> dictionary" where
  "Dictionary_remove key d = (fst d, AList.delete key (snd d))"

text \<open>\<^verbatim>\<open>Dictionary::encode_summary\<close>: a new object, returned as it is.\<close>

definition Dictionary_encode_summary :: "dictionary \<Rightarrow> object" where
  "Dictionary_encode_summary d = []"

text \<open>The predicates of \<^verbatim>\<open>Attribute\<close> and its \<^verbatim>\<open>encode_summary\<close>, which \<^verbatim>\<open>Null\<close> and
  \<^verbatim>\<open>Atomic<T>\<close> inherit.\<close>

definition is_array :: "AttributeType \<Rightarrow> bool" where
  "is_array ty = (ty = ATTR_ARRAY)"

definition is_object :: "AttributeType \<Rightarrow> bool" where
  "is_object ty = (ty = ATTR_DICTIONARY)"

definition is_null :: "AttributeType \<Rightarrow> bool" where
  "is_null ty = (ty = ATTR_NULL)"

definition is_atomic :: "AttributeType \<Rightarrow> bool" where
  "is_atomic ty = (\<not> (is_array ty \<or> is_object ty \<or> is_null ty))"

definition Atomic_encode_summary :: "atomic \<Rightarrow> object" where
  "Atomic_encode_summary a =
     (let json = Object_set ''type'' (Holder (V_string (m_type_name a))) []
      in if is_atomic (m_type a)
         then Object_set ''value'' (Object_get (Atomic_encode a) ''value'') json
         else json)"

text \<open>
  The decoders call each other along the JSON tree: the dispatcher \<^verbatim>\<open>decode\<close>,
  \<^verbatim>\<open>Dictionary::decode\<close>, and \<^verbatim>\<open>Dictionary::decode_items\<close> with its loop over the
  names of the members. Every call from the loop is on a member of the object at hand, so
  the size of the object bounds the recursion.
\<close>

definition obj_size :: "object \<Rightarrow> nat" where
  "obj_size j = size (JObject j)"

lemma map_of_size: "map_of j k = Some v \<Longrightarrow> size v < obj_size j"
  unfolding obj_size_def
  by (induction j) (auto split: if_splits)

lemma getObject_size: "getObject j k = Some c \<Longrightarrow> obj_size c < obj_size j"
  unfolding getObject_def
  by (auto split: option.splits var.splits dest!: map_of_size simp: obj_size_def)

lemma deref_getObject_size: "deref (getObject j k) = Inr c \<Longrightarrow> obj_size c < obj_size j"
  by (auto simp: deref_def split: option.splits dest: getObject_size)

function decode :: "poco \<Rightarrow> object \<Rightarrow> (fault + attribute) option"
  and Dictionary_decode :: "poco \<Rightarrow> object \<Rightarrow> (fault + dictionary) option"
  and decode_items :: "poco \<Rightarrow> object \<Rightarrow> dictionary \<Rightarrow> (fault + dictionary) option"
  and decode_items_loop ::
    "poco \<Rightarrow> object \<Rightarrow> string list \<Rightarrow> dictionary \<Rightarrow> (fault + dictionary) option"
where
  "decode P json =
     (case getValue_string P json ''type'' of
        Inl e \<Rightarrow> Some (Inl (Exn (SALException
                   [Text ''JSON object does not define a valid SAL attribute.''])))
      | Inr ident \<Rightarrow>
          if ident = ''dictionary''
          then map_option (map_sum id (\<lambda>d. Dictionary (fst d) (snd d))) (Dictionary_decode P json)
          else if ident = ''array'' then map_option (map_sum id Array) (decode_array P json)
          else if ident = ''int8'' then Some (map_sum id Atomic (Atomic_decode P C_int8 json))
          else if ident = ''int16'' then Some (map_sum id Atomic (Atomic_decode P C_int16 json))
          else if ident = ''int32'' then Some (map_sum id Atomic (Atomic_decode P C_int32 json))
          else if ident = ''int64'' then Some (map_sum id Atomic (Atomic_decode P C_int64 json))
          else if ident = ''uint8'' then Some (map_sum id Atomic (Atomic_decode P C_uint8 json))
          else if ident = ''uint16'' then Some (map_sum id Atomic (Atomic_decode P C_uint16 json))
          else if ident = ''uint32'' then Some (map_sum id Atomic (Atomic_decode P C_uint32 json))
          else if ident = ''uint64'' then Some (map_sum id Atomic (Atomic_decode P C_uint64 json))
          else if ident = ''float32'' then Some (map_sum id Atomic (Atomic_decode P C_float json))
          else if ident = ''float64'' then Some (map_sum id Atomic (Atomic_decode P C_double json))
          else if ident = ''bool'' then Some (map_sum id Atomic (Atomic_decode P C_bool json))
          else if ident = ''string'' then Some (map_sum id Atomic (Atomic_decode P C_string json))
          else Some (Inl (Exn (SALException
                 [Text ''JSON object does not define a valid SAL attribute.'']))))"
| "Dictionary_decode P json =
     map_option (\<lambda>r. try_catch r (\<lambda>e. Inl (Exn (SAL_REPORT_DECODE_ERROR ''decode'' e json))))
       (case getValue_string P json ''type'' of
          Inl e \<Rightarrow> Some (Inl (Exn e))
        | Inr t \<Rightarrow>
            if t \<noteq> ''dictionary''
            then Some (Inl (Exn (SALException [Text ''data type does not match''])))
            else if Object_has json ''items''
            then map_option (map_sum id (\<lambda>d. (fst d\<lparr>m_is_summary := False\<rparr>, snd d)))
                   (decode_items P json Dictionary_ctor)
            else Some (Inr (fst Dictionary_ctor\<lparr>m_is_summary := True\<rparr>, snd Dictionary_ctor)))"
| "decode_items P json container =
     (case deref (getObject json ''items'') of
        Inl f \<Rightarrow> Some (Inl f)
      | Inr contents \<Rightarrow> decode_items_loop P contents (getNames contents) container)"
| "decode_items_loop P contents [] container = Some (Inr container)"
| "decode_items_loop P contents (key # keys) container =
     (if isNull contents key then decode_items_loop P contents keys container
      else if \<not> isObject contents key
      then Some (Inl (Exn (SALException
             [Text ''all valid attributes definitions must be JSON objects''])))
      else
        (case getObject contents key of
           None \<Rightarrow> Some (Inl (Exn (SALException
                     [Text ''JSON object does not define a valid SAL attribute.''])))
         | Some child \<Rightarrow>
             (case decode P child of
                None \<Rightarrow> None
              | Some (Inl f) \<Rightarrow> Some (Inl f)
              | Some (Inr a) \<Rightarrow>
                  decode_items_loop P contents keys (Dictionary_set key a container))))"
  by pat_completeness auto
termination
  by (relation "inv_image (less_than <*lex*> less_than)
        (\<lambda>x. case x of
                Inl (Inl (P, json)) \<Rightarrow> (obj_size json, 2)
              | Inl (Inr (P, json)) \<Rightarrow> (obj_size json, 1)
              | Inr (Inl (P, json, c)) \<Rightarrow> (obj_size json, 0)
              | Inr (Inr (P, contents, keys, c)) \<Rightarrow> (obj_size contents, length keys))")
     (auto dest: getObject_size deref_getObject_size)

declare decode.simps [simp del] Dictionary_decode.simps [simp del] decode_items.simps [simp del]

section \<open>Concrete inputs\<close>

text \<open>
  An instance of the library's services for evaluating the decoders on concrete inputs:
  it refuses every conversion between different types, and its codec and byte layout are
  empty. The examples below read only members that already hold the type asked for, so
  their results are the same for every other instance.
\<close>

definition poco_sample :: poco where
  "poco_sample =
     \<lparr>to_string = (\<lambda>v. Inl (PocoException ''Bad cast'')),
      to_bool = (\<lambda>v. Inl (PocoException ''Bad cast'')),
      to_integer = (\<lambda>T v. Inl (PocoException ''Bad cast'')),
      to_float = (\<lambda>v. Inl (PocoException ''Bad cast'')),
      to_double = (\<lambda>v. Inl (PocoException ''Bad cast'')),
      base64_encode = (\<lambda>bs. []),
      base64_decode = (\<lambda>s. []),
      to_bytes = (\<lambda>v. []),
      of_bytes = (\<lambda>T bs. default_val T)\<rparr>"

section \<open>Atomic values\<close>



text \<open>
  C1. For every value \<open>v\<close> of a supported native type \<open>T\<close>, \<^verbatim>\<open>Atomic<T>(v)\<close> is
  constructed, decoding its encoding as \<^verbatim>\<open>Atomic<T>\<close> gives the same instance back (so
  the same value), and its tag and wire type name are \<^verbatim>\<open>to_dtype<T>()\<close> and
  \<^verbatim>\<open>to_dtype_name<T>()\<close>. A float is compared by its bit pattern.
\<close>

theorem atomic_roundtrip:
  "\<exists>a. Atomic_ctor v = Inr a \<and> m_value a = v
     \<and> Atomic_decode P (ctype_of v) (Atomic_encode a) = Inr a
     \<and> to_dtype (Native (ctype_of v)) = Inr (m_type a)
     \<and> to_dtype_name (Native (ctype_of v)) = Inr (m_type_name a)"
  by (cases v)
     (simp_all add: Atomic_ctor_def Atomic_decode_def Atomic_encode_def Object_set_def
       getValue_string_def getValue_def Object_get_def convert_def convert_string_def
       Attribute_ctor_def attribute_base.extend_def)

text \<open>
  C8. Whenever the \<^verbatim>\<open>type\<close> member of the wire object does not read as the wire
  name of \<open>T\<close> (it reads as another string, or cannot be read), \<^verbatim>\<open>Atomic<T>::decode\<close>
  fails with the decode error of the atomic decoder; no instance is returned, so no value
  is coerced.
\<close>

theorem atomic_decode_type_mismatch:
  assumes "to_dtype_name (Native T) = Inr nm"
      and "getValue_string P json ''type'' \<noteq> Inr nm"
  shows "Atomic_decode P T json =
           Inl (Exn (SALException
             [Text (''JSON object does not define a valid SAL scalar/atomic attribute. json obejct is ''
                    @ [CHR 0x0A]),
              Stringify json 2]))"
proof (cases "getValue_string P json ''type''")
  case (Inl e)
  then show ?thesis by (simp add: Atomic_decode_def)
next
  case (Inr t)
  with assms have "t \<noteq> nm" by simp
  with Inr assms(1) show ?thesis by (simp add: Atomic_decode_def)
qed

theorem atomic_decode_type_mismatch_witness:
  "to_dtype_name (Native C_int32) = Inr ''int32''
   \<and> getValue_string poco_sample
        [(''type'', Holder (V_string ''float32'')), (''value'', Holder (V_float 0x3FC00000))]
        ''type'' \<noteq> Inr ''int32''
   \<and> Atomic_decode poco_sample C_int32
        [(''type'', Holder (V_string ''float32'')), (''value'', Holder (V_float 0x3FC00000))] =
       Inl (Exn (SALException
         [Text (''JSON object does not define a valid SAL scalar/atomic attribute. json obejct is ''
                @ [CHR 0x0A]),
          Stringify
            [(''type'', Holder (V_string ''float32'')), (''value'', Holder (V_float 0x3FC00000))]
            2]))"
proof -
  have n: "to_dtype_name (Native C_int32) = Inr ''int32''" by simp
  have t: "getValue_string poco_sample
        [(''type'', Holder (V_string ''float32'')), (''value'', Holder (V_float 0x3FC00000))]
        ''type'' \<noteq> Inr ''int32''"
    by (simp add: getValue_string_def Object_get_def convert_string_def)
  from n t atomic_decode_type_mismatch [OF n t] show ?thesis by blast
qed

section \<open>Strides and element access\<close>

lemma max_size_small: "n < 2 ^ 58 \<Longrightarrow> \<not> max_size T < n"
  by (cases T) (simp_all add: max_size_def)

lemma max_size_pos: "0 < max_size T"
  by (cases T) (simp_all add: max_size_def)

lemma stride_loop_neg: "i < 0 \<Longrightarrow> stride_loop shape strides i = Inr strides"
  by (subst stride_loop.simps) simp




lemma IArray_ctor_empty: "IArray_ctor [] = Inl (UB ''vector index out of range'')"
  by (simp add: IArray_ctor_def Let_def vec_write_def size_t_of_def stride_loop_neg)

lemma IArray_ctor_0:
  "IArray_ctor [0] =
     Inr (attribute_base.extend (Attribute_ctor ATTR_ARRAY ''array'')
            \<lparr>m_dimension = 1, m_shape = [0], m_strides = [1]\<rparr>)"
  by (simp add: IArray_ctor_def Let_def vec_write_def size_t_of_def stride_loop_neg)

lemma word8_257: "(257 :: 8 word) = 1"
  by simp

lemma IArray_ctor_257:
  "IArray_ctor (replicate 257 1) =
     Inr (attribute_base.extend (Attribute_ctor ATTR_ARRAY ''array'')
            \<lparr>m_dimension = 1, m_shape = replicate 257 1, m_strides = [1]\<rparr>)"
  by (simp add: IArray_ctor_def Let_def vec_write_def size_t_of_def word8_257 stride_loop_neg)

lemma foldl_ones: "foldl (\<lambda>n d. n * d) (1 :: 64 word) (replicate k 1) = 1"
  by (induction k) simp_all

text \<open>
  C6 (the code at two inputs). For the shape [0] the bound \<^verbatim>\<open>m_shape[0] - 1UL\<close> wraps
  to the largest \<^verbatim>\<open>uint64_t\<close>, so \<^verbatim>\<open>at(0)\<close>, whose index is outside [0, 0), passes
  the check and reads element 0 of an empty buffer instead of throwing. For a shape of 257
  extents \<^verbatim>\<open>m_dimension\<close> is 1, and \<^verbatim>\<open>at(0)\<close> returns the first element.
\<close>

theorem at_unchecked_inputs:
  "(\<exists>a. Array_ctor C_int32 [0] = Inr a \<and> data a = []
        \<and> Array_at a 0 [] = Inl (UB ''vector index out of range''))
   \<and> (\<exists>b. Array_ctor C_int32 (replicate 257 1) = Inr b \<and> length (m_shape b) = 257
        \<and> Array_at b 0 [] = Inr (V_int32 0))"
  apply (simp add: Array_ctor_def Array_ctor3_def IArray_ctor_0 IArray_ctor_257 Let_def
      Array_at_def at_index_def iarray.extend_def attribute_base.extend_def Attribute_ctor_def
      foldl_ones max_size_pos)
  apply (subst at_loop.simps, simp add: vec_read_def word_sless_alt declared_throw_none_def)+
  done

section \<open>Summaries\<close>

lemma unat8_Suc: "unat (i :: 8 word) < 255 \<Longrightarrow> unat (i + 1) = Suc (unat i)"
  by (simp add: unat_word_ariths)

text \<open>With at most 255 extents the eight-bit counter does not wrap and the loop of
  \<^verbatim>\<open>encode_shape\<close> ends with the extents in order.\<close>

lemma encode_shape_loop_Some:
  "length shape \<le> 255 \<Longrightarrow> unat i \<le> length shape \<Longrightarrow>
   encode_shape_loop shape i acc =
     Some (acc @ map (\<lambda>d. Holder (V_uint64 d)) (drop (unat i) shape))"
proof (induction "length shape - unat i" arbitrary: i acc)
  case 0
  then have "\<not> unat i < length shape" by simp
  with 0 show ?case
    by (subst encode_shape_loop.simps) simp
next
  case (Suc n)
  then have lt: "unat i < length shape" by simp
  with Suc.prems have s: "unat (i + 1) = Suc (unat i)" by (simp add: unat8_Suc)
  have "encode_shape_loop shape (i + 1) (acc @ [Holder (V_uint64 (shape ! unat i))]) =
        Some ((acc @ [Holder (V_uint64 (shape ! unat i))])
              @ map (\<lambda>d. Holder (V_uint64 d)) (drop (unat (i + 1)) shape))"
    using Suc.hyps(2) Suc.prems lt s by (intro Suc.hyps(1)) simp_all
  with lt s show ?case
    by (subst encode_shape_loop.simps) (simp add: Cons_nth_drop_Suc [symmetric])
qed

lemma encode_shape_Some:
  "length (m_shape a) \<le> 255 \<Longrightarrow>
   encode_shape a = Some (map (\<lambda>d. Holder (V_uint64 d)) (m_shape a))"
  by (simp add: encode_shape_def encode_shape_loop_Some)

text \<open>The instance \<^verbatim>\<open>Int32Array({3})\<close>.\<close>

definition int32_array_3 :: array where
  "int32_array_3 =
     \<lparr>m_type = ATTR_ARRAY, m_type_name = ''array'', m_group_name = ''core'',
      m_is_summary = False, m_description = [],
      m_dimension = 1, m_shape = [3], m_strides = [1],
      array_T = C_int32, m_element_type = ATTR_INT32, m_element_type_name = ''int32'',
      data = [V_int32 0, V_int32 0, V_int32 0]\<rparr>"

lemma IArray_ctor_3:
  "IArray_ctor [3] =
     Inr (attribute_base.extend (Attribute_ctor ATTR_ARRAY ''array'')
            \<lparr>m_dimension = 1, m_shape = [3], m_strides = [1]\<rparr>)"
  by (simp add: IArray_ctor_def Let_def vec_write_def size_t_of_def stride_loop_neg)

lemma replicate_3: "replicate 3 x = [x, x, x]"
  by (simp add: numeral_3_eq_3)

lemma Array_ctor_int32_3: "Array_ctor C_int32 [3] = Inr int32_array_3"
  by (simp add: Array_ctor_def Array_ctor3_def IArray_ctor_3 Let_def int32_array_3_def
      iarray.extend_def attribute_base.extend_def Attribute_ctor_def replicate_3
      max_size_small)

text \<open>
  C9, as stated, fails: the summary of \<^verbatim>\<open>Int32Array({3})\<close> is the object with the one
  member \<^verbatim>\<open>shape\<close>, and the summary of an empty dictionary is the empty object; neither
  has a \<^verbatim>\<open>type\<close> member.
\<close>

theorem encode_summary_has_no_type:
  "Array_ctor C_int32 [3] = Inr int32_array_3
   \<and> Array_encode_summary int32_array_3 = Some [(''shape'', JArray [Holder (V_uint64 3)])]
   \<and> \<not> Object_has [(''shape'', JArray [Holder (V_uint64 3)])] ''type''
   \<and> \<not> Object_has (Dictionary_encode_summary Dictionary_ctor) ''type''"
proof -
  have "encode_shape int32_array_3 = Some [Holder (V_uint64 3)]"
    using encode_shape_Some [of int32_array_3] by (simp add: int32_array_3_def)
  then show ?thesis
    by (simp add: Array_ctor_int32_3 Array_encode_summary_def Object_set_def Object_has_def
        Dictionary_encode_summary_def)
qed

text \<open>
  C9, amended. For every array with at most 255 dimensions, \<^verbatim>\<open>encode_summary()\<close>
  returns the object whose only member is \<^verbatim>\<open>shape\<close>, the list of the extents: it has
  no \<^verbatim>\<open>type\<close>, no \<^verbatim>\<open>value\<close> and no \<^verbatim>\<open>data\<close>. For every dictionary,
  \<^verbatim>\<open>encode_summary()\<close> returns the empty object: no \<^verbatim>\<open>type\<close>, no \<^verbatim>\<open>items\<close>.
\<close>

theorem encode_summary_shape_only:
  assumes "length (m_shape a) \<le> 255"
  shows "Array_encode_summary a =
           Some [(''shape'', JArray (map (\<lambda>d. Holder (V_uint64 d)) (m_shape a)))]
         \<and> Dictionary_encode_summary d = []"
  using assms
  by (simp add: Array_encode_summary_def encode_shape_Some Object_set_def
      Dictionary_encode_summary_def)

theorem encode_summary_shape_only_witness:
  "length (m_shape int32_array_3) \<le> 255
   \<and> Array_encode_summary int32_array_3 = Some [(''shape'', JArray [Holder (V_uint64 3)])]
   \<and> Dictionary_encode_summary Dictionary_ctor = []"
proof -
  have l: "length (m_shape int32_array_3) \<le> 255" by (simp add: int32_array_3_def)
  from encode_summary_shape_only [OF l, of Dictionary_ctor] l show ?thesis
    by (simp add: int32_array_3_def)
qed

section \<open>Construction with one to 255 dimensions\<close>

text \<open>With at least one and at most 255 extents every index of the constructor is inside
  its vector, and the instance is built.\<close>

lemma size_t_of_nat: "0 \<le> i \<Longrightarrow> i < 2 ^ 64 \<Longrightarrow> size_t_of i = nat i"
  by (simp add: size_t_of_def)


lemma unat8_length: "length (xs :: 'a list) \<le> 255 \<Longrightarrow> unat (of_nat (length xs) :: 8 word) = length xs"
  by (simp add: unat_of_nat)




section \<open>Decoding arrays\<close>

text \<open>
  C2 (the code on summaries). On every wire object without a \<^verbatim>\<open>value\<close> member
  \<^verbatim>\<open>Array<T>::decode\<close> fails: when the \<^verbatim>\<open>type\<close> member reads as \<^verbatim>\<open>array\<close> it
  dereferences the null \<^verbatim>\<open>arr\<close> and throws the library's null pointer exception
  before \<^verbatim>\<open>shape\<close> is looked at; no summary array is returned.
\<close>

theorem array_decode_summary_fails:
  assumes "\<not> Object_has json ''value''"
  shows "(\<exists>f. Array_decode P T json = Some (Inl f))
         \<and> (getValue_string P json ''type'' = Inr ''array'' \<longrightarrow>
              Array_decode P T json = Some (Inl (Exn NullPointerException)))"
  using assms
  by (cases "getValue_string P json ''type''") (simp_all add: Array_decode_def deref_def)

theorem array_decode_summary_fails_witness:
  "\<not> Object_has [(''type'', Holder (V_string ''array'')), (''shape'', JArray [Holder (V_uint64 3)])] ''value''
   \<and> getValue_string poco_sample
        [(''type'', Holder (V_string ''array'')), (''shape'', JArray [Holder (V_uint64 3)])] ''type''
       = Inr ''array''
   \<and> Array_decode poco_sample C_int32
        [(''type'', Holder (V_string ''array'')), (''shape'', JArray [Holder (V_uint64 3)])]
       = Some (Inl (Exn (PocoException ''Null pointer'')))"
proof -
  have h: "\<not> Object_has [(''type'', Holder (V_string ''array'')), (''shape'', JArray [Holder (V_uint64 3)])] ''value''"
    by (simp add: Object_has_def)
  have t: "getValue_string poco_sample
        [(''type'', Holder (V_string ''array'')), (''shape'', JArray [Holder (V_uint64 3)])] ''type''
       = Inr ''array''"
    by (simp add: getValue_string_def Object_get_def convert_string_def)
  from array_decode_summary_fails [OF h, of poco_sample C_int32] h t show ?thesis
    by (simp add: NullPointerException_def)
qed







text \<open>The wire object \<^verbatim>\<open>Array<T>::encode\<close> builds, member by member.\<close>

definition Array_wire :: "string \<Rightarrow> var list \<Rightarrow> string \<Rightarrow> var \<Rightarrow> object" where
  "Array_wire t shape enc d =
     [(''type'', Holder (V_string ''array'')),
      (''value'', JObject [(''type'', Holder (V_string t)), (''shape'', JArray shape),
                           (''encoding'', Holder (V_string enc)), (''data'', d)])]"






section \<open>Decoding dictionaries\<close>

lemma isObject_getObject: "isObject contents k \<longleftrightarrow> (\<exists>child. getObject contents k = Some child)"
  by (auto simp: isObject_def getObject_def split: option.splits var.splits)

lemma getObject_not_null: "getObject contents k = Some child \<Longrightarrow> \<not> isNull contents k"
  by (auto simp: isNull_def getObject_def split: option.splits var.splits)

lemma getObject_in_names: "getObject contents k = Some child \<Longrightarrow> k \<in> set (getNames contents)"
  by (auto simp: getObject_def getNames_def split: option.splits var.splits dest: map_of_SomeD
      intro: rev_image_eqI)

lemma map_of_Dictionary_set:
  "map_of (snd (Dictionary_set key a c)) k = (if k = key then Some a else map_of (snd c) k)"
  by (simp add: Dictionary_set_def update_conv')

text \<open>
  The loop of \<^verbatim>\<open>decode_items\<close> over names whose members are null or objects that decode:
  it ends with a container in which the null names are as before and each object member
  is stored, decoded, under its name.
\<close>

lemma decode_items_loop_ok:
  assumes "\<forall>k \<in> set keys. isNull contents k
             \<or> (\<exists>child a. getObject contents k = Some child \<and> decode P child = Some (Inr a))"
  shows "\<exists>d. decode_items_loop P contents keys c = Some (Inr d) \<and> fst d = fst c
           \<and> (\<forall>k. k \<notin> set keys \<or> isNull contents k \<longrightarrow> map_of (snd d) k = map_of (snd c) k)
           \<and> (\<forall>k child. k \<in> set keys \<longrightarrow> getObject contents k = Some child \<longrightarrow>
                 (\<exists>a. decode P child = Some (Inr a) \<and> map_of (snd d) k = Some a))"
  using assms
proof (induction keys arbitrary: c)
  case Nil
  then show ?case by simp
next
  case (Cons key keys)
  then have rest: "\<forall>k \<in> set keys. isNull contents k
             \<or> (\<exists>child a. getObject contents k = Some child \<and> decode P child = Some (Inr a))"
    by simp
  show ?case
  proof (cases "isNull contents key")
    case True
    from Cons.IH [OF rest, of c] obtain d where d:
      "decode_items_loop P contents keys c = Some (Inr d)" "fst d = fst c"
      "\<forall>k. k \<notin> set keys \<or> isNull contents k \<longrightarrow> map_of (snd d) k = map_of (snd c) k"
      "\<forall>k child. k \<in> set keys \<longrightarrow> getObject contents k = Some child \<longrightarrow>
                 (\<exists>a. decode P child = Some (Inr a) \<and> map_of (snd d) k = Some a)"
      by blast
    have "\<forall>k child. k \<in> set (key # keys) \<longrightarrow> getObject contents k = Some child \<longrightarrow>
                 (\<exists>a. decode P child = Some (Inr a) \<and> map_of (snd d) k = Some a)"
      using d(4) True getObject_not_null by auto
    with d True show ?thesis by simp
  next
    case False
    with Cons.prems obtain child a where ch: "getObject contents key = Some child"
      "decode P child = Some (Inr a)" by auto
    then have io: "isObject contents key" by (auto simp: isObject_getObject)
    let ?c = "Dictionary_set key a c"
    from Cons.IH [OF rest, of ?c] obtain d where d:
      "decode_items_loop P contents keys ?c = Some (Inr d)" "fst d = fst ?c"
      "\<forall>k. k \<notin> set keys \<or> isNull contents k \<longrightarrow> map_of (snd d) k = map_of (snd ?c) k"
      "\<forall>k child. k \<in> set keys \<longrightarrow> getObject contents k = Some child \<longrightarrow>
                 (\<exists>a. decode P child = Some (Inr a) \<and> map_of (snd d) k = Some a)"
      by blast
    have run: "decode_items_loop P contents (key # keys) c = Some (Inr d)"
      using False io ch d(1) by simp
    have f: "fst d = fst c" using d(2) by (simp add: Dictionary_set_def)
    have u: "\<forall>k. k \<notin> set (key # keys) \<or> isNull contents k \<longrightarrow> map_of (snd d) k = map_of (snd c) k"
      using d(3) False by (auto simp: map_of_Dictionary_set)
    have o: "\<forall>k child'. k \<in> set (key # keys) \<longrightarrow> getObject contents k = Some child' \<longrightarrow>
                 (\<exists>a. decode P child' = Some (Inr a) \<and> map_of (snd d) k = Some a)"
    proof (intro allI impI)
      fix k child'
      assume k: "k \<in> set (key # keys)" and g: "getObject contents k = Some child'"
      show "\<exists>a. decode P child' = Some (Inr a) \<and> map_of (snd d) k = Some a"
      proof (cases "k \<in> set keys")
        case True
        with d(4) g show ?thesis by blast
      next
        case False
        with k have "k = key" by simp
        with g ch have "child' = child" by simp
        moreover have "map_of (snd d) key = Some a"
          using d(3) False \<open>k = key\<close> by (simp add: map_of_Dictionary_set)
        ultimately show ?thesis using ch \<open>k = key\<close> by simp
      qed
    qed
    from run f u o show ?thesis by blast
  qed
qed

text \<open>
  C7. For a wire object whose \<^verbatim>\<open>type\<close> reads as \<^verbatim>\<open>dictionary\<close> and whose
  \<^verbatim>\<open>items\<close> object has only members that are null or objects that decode,
  \<^verbatim>\<open>Dictionary::decode\<close> (and the dispatcher) returns a dictionary: it contains no key
  whose member is null, and under the key of every object member it holds what the
  dispatcher decodes that member to.
\<close>

theorem dictionary_decode_skips_null:
  assumes "getValue_string P json ''type'' = Inr ''dictionary''"
      and "getObject json ''items'' = Some contents"
      and "\<forall>k \<in> set (getNames contents). isNull contents k
             \<or> (\<exists>child a. getObject contents k = Some child \<and> decode P child = Some (Inr a))"
  shows "\<exists>d. Dictionary_decode P json = Some (Inr d)
           \<and> decode P json = Some (Inr (Dictionary (fst d) (snd d)))
           \<and> (\<forall>k. isNull contents k \<longrightarrow> \<not> Dictionary_has d k)
           \<and> (\<forall>k child. getObject contents k = Some child \<longrightarrow>
                 (\<exists>a. decode P child = Some (Inr a) \<and> Dictionary_get d k = Inr a))"
proof -
  from decode_items_loop_ok [OF assms(3), of Dictionary_ctor] obtain d where d:
    "decode_items_loop P contents (getNames contents) Dictionary_ctor = Some (Inr d)"
    "\<forall>k. k \<notin> set (getNames contents) \<or> isNull contents k \<longrightarrow>
        map_of (snd d) k = map_of (snd Dictionary_ctor) k"
    "\<forall>k child. k \<in> set (getNames contents) \<longrightarrow> getObject contents k = Some child \<longrightarrow>
        (\<exists>a. decode P child = Some (Inr a) \<and> map_of (snd d) k = Some a)"
    by blast
  let ?d = "(fst d\<lparr>m_is_summary := False\<rparr>, snd d)"
  have h: "Object_has json ''items''"
    using assms(2) by (auto simp: Object_has_def getObject_def split: option.splits)
  have it: "decode_items P json Dictionary_ctor = Some (Inr d)"
    using assms(2) d(1) by (simp add: decode_items.simps deref_def)
  have dd: "Dictionary_decode P json = Some (Inr ?d)"
    using assms(1) h it by (simp add: Dictionary_decode.simps)
  have dp: "decode P json = Some (Inr (Dictionary (fst ?d) (snd ?d)))"
    using assms(1) dd by (subst decode.simps) simp
  have n: "\<forall>k. isNull contents k \<longrightarrow> \<not> Dictionary_has ?d k"
    using d(2) by (simp add: Dictionary_has_def Dictionary_ctor_def)
  have o: "\<forall>k child. getObject contents k = Some child \<longrightarrow>
                 (\<exists>a. decode P child = Some (Inr a) \<and> Dictionary_get ?d k = Inr a)"
  proof (intro allI impI)
    fix k child assume g: "getObject contents k = Some child"
    with d(3) getObject_in_names [OF g]
    obtain a where "decode P child = Some (Inr a)" "map_of (snd d) k = Some a" by blast
    then show "\<exists>a. decode P child = Some (Inr a) \<and> Dictionary_get ?d k = Inr a"
      by (simp add: Dictionary_get_def)
  qed
  from dd dp n o show ?thesis by blast
qed


text \<open>The instance \<^verbatim>\<open>Int32(7)\<close>.\<close>

definition int32_7 :: atomic where
  "int32_7 =
     \<lparr>m_type = ATTR_INT32, m_type_name = ''int32'', m_group_name = ''core'',
      m_is_summary = False, m_description = [], atomic_T = C_int32, m_value = V_int32 7\<rparr>"

lemma decode_int32_7:
  "decode poco_sample [(''type'', Holder (V_string ''int32'')), (''value'', Holder (V_int32 7))]
     = Some (Inr (Atomic int32_7))"
  by (subst decode.simps)
     (simp add: getValue_string_def getValue_def Object_get_def convert_string_def convert_def
       Atomic_decode_def Atomic_ctor_def Attribute_ctor_def attribute_base.extend_def int32_7_def)

theorem dictionary_decode_skips_null_witness:
  "\<exists>d. Dictionary_decode poco_sample
          [(''type'', Holder (V_string ''dictionary'')),
           (''items'', JObject
              [(''a'', Empty),
               (''b'', JObject [(''type'', Holder (V_string ''int32'')),
                                (''value'', Holder (V_int32 7))])])]
        = Some (Inr d)
      \<and> isNull [(''a'', Empty),
                (''b'', JObject [(''type'', Holder (V_string ''int32'')),
                                 (''value'', Holder (V_int32 7))])] ''a''
      \<and> \<not> Dictionary_has d ''a''
      \<and> Dictionary_get d ''b'' = Inr (Atomic int32_7)"
proof -
  let ?child = "[(''type'', Holder (V_string ''int32'')), (''value'', Holder (V_int32 7))]"
  let ?contents = "[(''a'', Empty), (''b'', JObject ?child)]"
  let ?json = "[(''type'', Holder (V_string ''dictionary'')), (''items'', JObject ?contents)]"
  have 1: "getValue_string poco_sample ?json ''type'' = Inr ''dictionary''"
    by (simp add: getValue_string_def Object_get_def convert_string_def)
  have 2: "getObject ?json ''items'' = Some ?contents"
    by (simp add: getObject_def)
  have n: "isNull ?contents ''a''" by (simp add: isNull_def)
  have b: "getObject ?contents ''b'' = Some ?child" by (simp add: getObject_def)
  have 3: "\<forall>k \<in> set (getNames ?contents). isNull ?contents k
             \<or> (\<exists>child a. getObject ?contents k = Some child
                    \<and> decode poco_sample child = Some (Inr a))"
    using n b decode_int32_7 by (simp add: getNames_def)
  from dictionary_decode_skips_null [OF 1 2 3] obtain d where d:
    "Dictionary_decode poco_sample ?json = Some (Inr d)"
    "\<forall>k. isNull ?contents k \<longrightarrow> \<not> Dictionary_has d k"
    "\<forall>k child. getObject ?contents k = Some child \<longrightarrow>
        (\<exists>a. decode poco_sample child = Some (Inr a) \<and> Dictionary_get d k = Inr a)"
    by blast
  from d(3) b decode_int32_7 have "Dictionary_get d ''b'' = Inr (Atomic int32_7)" by fastforce
  with d(1,2) n show ?thesis by blast
qed

section \<open>Errors of the decoders\<close>

text \<open>
  C3, as stated, fails: on an array definition without an \<^verbatim>\<open>encoding\<close> member the
  library's exception for an empty value leaves \<^verbatim>\<open>Array<T>::decode\<close>, and the
  dispatcher, as it is.
\<close>

theorem array_decode_error_escapes:
  "Array_decode poco_sample C_int32
     [(''type'', Holder (V_string ''array'')),
      (''value'', JObject [(''type'', Holder (V_string ''int32''))])]
     = Some (Inl (Exn (PocoException ''Invalid access'')))
   \<and> decode poco_sample
     [(''type'', Holder (V_string ''array'')),
      (''value'', JObject [(''type'', Holder (V_string ''int32''))])]
     = Some (Inl (Exn (PocoException ''Invalid access'')))"
proof -
  let ?json = "[(''type'', Holder (V_string ''array'')),
      (''value'', JObject [(''type'', Holder (V_string ''int32''))])]"
  have a: "Array_decode poco_sample C_int32 ?json = Some (Inl (Exn (PocoException ''Invalid access'')))"
    by (simp add: Array_decode_def getValue_string_def Object_get_def convert_string_def
        Object_has_def getObject_def deref_def InvalidAccessException_def)
  have "decode_array poco_sample ?json = Array_decode poco_sample C_int32 ?json"
    by (simp add: decode_array_def getValue_string_def Object_get_def convert_string_def
        getObject_def deref_def)
  with a have "decode poco_sample ?json = Some (Inl (Exn (PocoException ''Invalid access'')))"
    by (subst decode.simps) (simp add: getValue_string_def Object_get_def convert_string_def)
  with a show ?thesis by simp
qed

text \<open>The exception the handler of \<^verbatim>\<open>Atomic<T>::decode\<close> throws.\<close>

definition atomic_decode_error :: "object \<Rightarrow> exn" where
  "atomic_decode_error json =
     SALException
       [Text (''JSON object does not define a valid SAL scalar/atomic attribute. json obejct is ''
              @ [CHR 0x0A]),
        Stringify json 2]"

lemma try_catch_Exn_iff:
  "try_catch r (\<lambda>e. Inl (Exn (h e))) = Inl (Exn e') \<longleftrightarrow>
     (\<exists>cause. r = Inl (Exn cause) \<and> e' = h cause)"
proof (cases r)
  case (Inl f)
  then show ?thesis by (cases f) auto
next
  case (Inr x)
  then show ?thesis by simp
qed

lemma try_catch_const:
  assumes "try_catch r (\<lambda>e. Inl (Exn c)) = Inl f"
  shows "f = Exn c \<or> (r = Inl f \<and> (\<forall>e. f \<noteq> Exn e))"
proof (cases r)
  case (Inl g)
  with assms show ?thesis by (cases g) auto
next
  case (Inr x)
  with assms show ?thesis by simp
qed

lemma Atomic_ctor_only_throws: "Atomic_ctor v = Inl f \<Longrightarrow> \<exists>e. f = Exn e"
  by (auto simp: Atomic_ctor_def split: sum.splits)

lemma Atomic_decode_fails:
  assumes "Atomic_decode P T json = Inl f"
  shows "f = Exn (atomic_decode_error json)"
proof -
  let ?body = "case getValue_string P json ''type'' of
          Inl e \<Rightarrow> Inl (Exn e)
        | Inr t \<Rightarrow>
            (case to_dtype_name (Native T) of
               Inl e \<Rightarrow> Inl (Exn e)
             | Inr nm \<Rightarrow>
                 if t \<noteq> nm
                 then Inl (Exn (SALException
                        [Text ''type name in json does not match template datatype'']))
                 else (case getValue P T json ''value'' of
                         Inl e \<Rightarrow> Inl (Exn e)
                       | Inr v \<Rightarrow> Atomic_ctor v))"
  have "f = Exn (atomic_decode_error json) \<or> (?body = Inl f \<and> (\<forall>e. f \<noteq> Exn e))"
    using assms unfolding Atomic_decode_def atomic_decode_error_def by (rule try_catch_const)
  moreover have "?body = Inl f \<Longrightarrow> \<exists>e. f = Exn e"
    by (auto split: sum.splits if_splits dest: Atomic_ctor_only_throws)
  ultimately show ?thesis by blast
qed

lemma map_sum_id_Inl: "map_sum id g r = Inl f \<longleftrightarrow> r = Inl f"
  by (cases r) auto

text \<open>
  What \<^verbatim>\<open>Dictionary::decode\<close> throws: its handler's report of the exception that left
  its \<^verbatim>\<open>try\<close> block, which is the exception of reading \<^verbatim>\<open>type\<close>, the type mismatch,
  or the exception that left \<^verbatim>\<open>decode_items\<close>.
\<close>

lemma Dictionary_decode_throws_iff:
  "Dictionary_decode P json = Some (Inl (Exn e)) \<longleftrightarrow>
     (\<exists>cause. e = SAL_REPORT_DECODE_ERROR ''decode'' cause json
        \<and> (getValue_string P json ''type'' = Inl cause
            \<or> (\<exists>t. getValue_string P json ''type'' = Inr t \<and> t \<noteq> ''dictionary''
                  \<and> cause = SALException [Text ''data type does not match''])
            \<or> (getValue_string P json ''type'' = Inr ''dictionary''
                \<and> Object_has json ''items''
                \<and> decode_items P json Dictionary_ctor = Some (Inl (Exn cause)))))"
proof (cases "getValue_string P json ''type''")
  case (Inl c)
  then show ?thesis
    by (subst Dictionary_decode.simps) (auto simp: try_catch_Exn_iff)
next
  case (Inr t)
  show ?thesis
  proof (cases "t = ''dictionary''")
    case False
    with Inr show ?thesis
      by (subst Dictionary_decode.simps) (auto simp: try_catch_Exn_iff)
  next
    case True
    show ?thesis
    proof (cases "Object_has json ''items''")
      case False
      with Inr True show ?thesis
        by (subst Dictionary_decode.simps) simp
    next
      case has: True
      with Inr True show ?thesis
        by (subst Dictionary_decode.simps)
           (auto simp: try_catch_Exn_iff map_sum_id_Inl)
    qed
  qed
qed

text \<open>What leaves the loop of \<^verbatim>\<open>decode_items\<close> is the exception of a member that is not
  null: the structural error for a member that is not an object, or what the dispatcher
  throws on the member.\<close>

lemma decode_items_loop_throws:
  "decode_items_loop P contents keys c = Some (Inl (Exn cause)) \<Longrightarrow>
   \<exists>k \<in> set keys. \<not> isNull contents k
     \<and> ((\<not> isObject contents k
          \<and> cause = SALException
                [Text ''all valid attributes definitions must be JSON objects''])
         \<or> (\<exists>child. getObject contents k = Some child
               \<and> decode P child = Some (Inl (Exn cause))))"
proof (induction keys arbitrary: c)
  case Nil
  then show ?case by simp
next
  case (Cons key keys)
  show ?case
  proof (cases "isNull contents key")
    case True
    with Cons.prems have "decode_items_loop P contents keys c = Some (Inl (Exn cause))" by simp
    from Cons.IH [OF this] show ?thesis by auto
  next
    case nn: False
    show ?thesis
    proof (cases "isObject contents key")
      case False
      with nn Cons.prems show ?thesis by auto
    next
      case True
      then obtain child where ch: "getObject contents key = Some child"
        by (auto simp: isObject_getObject)
      show ?thesis
      proof (cases "decode P child")
        case None
        with nn True ch Cons.prems show ?thesis by simp
      next
        case (Some r)
        show ?thesis
        proof (cases r)
          case (Inl f)
          with Some nn True ch Cons.prems have "decode P child = Some (Inl (Exn cause))" by simp
          with nn ch show ?thesis by auto
        next
          case (Inr a)
          with Some nn True ch Cons.prems
          have "decode_items_loop P contents keys (Dictionary_set key a c) = Some (Inl (Exn cause))"
            by simp
          from Cons.IH [OF this] show ?thesis by auto
        qed
      qed
    qed
  qed
qed

text \<open>
  C3, amended. Whatever makes \<^verbatim>\<open>Atomic<T>::decode\<close> fail, it fails with the one
  exception of the atomic decoder, whose message is a fixed text followed by the dump of
  the wire object. \<^verbatim>\<open>Dictionary::decode\<close> throws exactly when its \<^verbatim>\<open>try\<close> block
  throws, and what it throws is the decode error whose message is the name of the
  function, the message of that cause, and the dump of the wire object; the cause is the
  exception of reading \<^verbatim>\<open>type\<close>, the type mismatch, or what left \<^verbatim>\<open>decode_items\<close>:
  the null pointer for an \<^verbatim>\<open>items\<close> member that is not an object, or the exception of
  a member that is not null (the structural error, or what the dispatcher throws on it).
  \<^verbatim>\<open>Array<T>::decode\<close> has no handler: the exception of reading \<^verbatim>\<open>type\<close> leaves it
  as it is.
\<close>

theorem decode_errors_wrapped:
  "(Atomic_decode P T json = Inl f \<longrightarrow> f = Exn (atomic_decode_error json))
   \<and> (Dictionary_decode P json' = Some (Inl (Exn e)) \<longleftrightarrow>
        (\<exists>cause.
           e = SALException
                 ([Text ''JSON object does not define a valid SAL object in function: '',
                   Text ''decode'', Text [CHR 0x0A]]
                  @ what cause
                  @ [Text [CHR 0x0A], Text ('' json object: '' @ [CHR 0x0A]),
                     Stringify json' 2])
           \<and> (getValue_string P json' ''type'' = Inl cause
               \<or> (\<exists>t. getValue_string P json' ''type'' = Inr t \<and> t \<noteq> ''dictionary''
                     \<and> cause = SALException [Text ''data type does not match''])
               \<or> (getValue_string P json' ''type'' = Inr ''dictionary''
                   \<and> Object_has json' ''items''
                   \<and> decode_items P json' Dictionary_ctor = Some (Inl (Exn cause))))))
   \<and> (decode_items P json' c = Some (Inl (Exn cause')) \<longrightarrow>
        (getObject json' ''items'' = None \<and> cause' = PocoException ''Null pointer'')
        \<or> (\<exists>contents k. getObject json' ''items'' = Some contents
              \<and> k \<in> set (getNames contents) \<and> \<not> isNull contents k
              \<and> ((\<not> isObject contents k
                   \<and> cause' = SALException
                        [Text ''all valid attributes definitions must be JSON objects''])
                  \<or> (\<exists>child. getObject contents k = Some child
                        \<and> decode P child = Some (Inl (Exn cause'))))))
   \<and> (getValue_string P json'' ''type'' = Inl c' \<longrightarrow>
        Array_decode P T' json'' = Some (Inl (Exn c')))"
proof (intro conjI impI)
  assume "Atomic_decode P T json = Inl f"
  then show "f = Exn (atomic_decode_error json)" by (rule Atomic_decode_fails)
next
  assume "getValue_string P json'' ''type'' = Inl c'"
  then show "Array_decode P T' json'' = Some (Inl (Exn c'))"
    by (simp add: Array_decode_def)
next
  show "Dictionary_decode P json' = Some (Inl (Exn e)) \<longleftrightarrow>
        (\<exists>cause.
           e = SALException
                 ([Text ''JSON object does not define a valid SAL object in function: '',
                   Text ''decode'', Text [CHR 0x0A]]
                  @ what cause
                  @ [Text [CHR 0x0A], Text ('' json object: '' @ [CHR 0x0A]),
                     Stringify json' 2])
           \<and> (getValue_string P json' ''type'' = Inl cause
               \<or> (\<exists>t. getValue_string P json' ''type'' = Inr t \<and> t \<noteq> ''dictionary''
                     \<and> cause = SALException [Text ''data type does not match''])
               \<or> (getValue_string P json' ''type'' = Inr ''dictionary''
                   \<and> Object_has json' ''items''
                   \<and> decode_items P json' Dictionary_ctor = Some (Inl (Exn cause)))))"
    using Dictionary_decode_throws_iff [of P json' e]
    by (simp only: SAL_REPORT_DECODE_ERROR_def)
next
  assume d: "decode_items P json' c = Some (Inl (Exn cause'))"
  show "(getObject json' ''items'' = None \<and> cause' = PocoException ''Null pointer'')
        \<or> (\<exists>contents k. getObject json' ''items'' = Some contents
              \<and> k \<in> set (getNames contents) \<and> \<not> isNull contents k
              \<and> ((\<not> isObject contents k
                   \<and> cause' = SALException
                        [Text ''all valid attributes definitions must be JSON objects''])
                  \<or> (\<exists>child. getObject contents k = Some child
                        \<and> decode P child = Some (Inl (Exn cause')))))"
  proof (cases "getObject json' ''items''")
    case None
    with d show ?thesis
      by (simp add: decode_items.simps deref_def NullPointerException_def)
  next
    case (Some contents)
    with d have "decode_items_loop P contents (getNames contents) c = Some (Inl (Exn cause'))"
      by (simp add: decode_items.simps deref_def)
    from decode_items_loop_throws [OF this] Some show ?thesis by blast
  qed
qed

theorem decode_errors_wrapped_witness:
  "Atomic_decode poco_sample C_int32 [] = Inl (Exn (atomic_decode_error []))
   \<and> Dictionary_decode poco_sample [(''type'', Holder (V_string ''array''))] =
       Some (Inl (Exn (SALException
         [Text ''JSON object does not define a valid SAL object in function: '',
          Text ''decode'', Text [CHR 0x0A],
          Text ''data type does not match'',
          Text [CHR 0x0A], Text ('' json object: '' @ [CHR 0x0A]),
          Stringify [(''type'', Holder (V_string ''array''))] 2])))"
proof -
  have a: "Atomic_decode poco_sample C_int32 [] =
      Inl (Exn (SALException
       [Text (''JSON object does not define a valid SAL scalar/atomic attribute. json obejct is ''
              @ [CHR 0x0A]),
        Stringify [] 2]))"
    by (simp add: Atomic_decode_def getValue_string_def Object_get_def convert_string_def)
  have t: "getValue_string poco_sample [(''type'', Holder (V_string ''array''))] ''type''
             = Inr ''array''"
    by (simp add: getValue_string_def Object_get_def convert_string_def)
  note w = decode_errors_wrapped [of poco_sample C_int32 "[]" _ "[(''type'', Holder (V_string ''array''))]"]
  from w [THEN conjunct1, rule_format, OF a] have 1:
    "Atomic_decode poco_sample C_int32 [] = Inl (Exn (atomic_decode_error []))"
    using a by simp
  have 2: "Dictionary_decode poco_sample [(''type'', Holder (V_string ''array''))] =
       Some (Inl (Exn (SALException
         ([Text ''JSON object does not define a valid SAL object in function: '',
          Text ''decode'', Text [CHR 0x0A]]
          @ what (SALException [Text ''data type does not match''])
          @ [Text [CHR 0x0A], Text ('' json object: '' @ [CHR 0x0A]),
          Stringify [(''type'', Holder (V_string ''array''))] 2]))))"
    using t
    by (intro w [THEN conjunct2, THEN conjunct1, THEN iffD2]
          exI [where x = "SALException [Text ''data type does not match'']"]) simp
  from 1 2 show ?thesis by simp
qed

section \<open>The empty shape\<close>

lemma Array_decode_empty_shape:
  "Array_decode P C_int32 (Array_wire ''int32'' [] ''base64'' (Holder (V_string s)))
     = Some (Inl (UB ''vector index out of range''))"
proof -
  have "decode_shape P (Some []) = Some (Inr [])"
    by (simp add: decode_shape_def deref_def) (subst decode_shape_loop.simps, simp)
  then show ?thesis
    by (simp add: Array_decode_def Array_wire_def getValue_string_def Object_get_def
        convert_string_def Object_has_def getObject_def getArray_def deref_def
        Array_ctor_def Array_ctor3_def IArray_ctor_empty)
qed

text \<open>
  C5 (the code at the empty shape). The constructor of \<^verbatim>\<open>IArray\<close> writes
  \<^verbatim>\<open>m_strides[m_dimension - 1]\<close> before anything else; for the shape [] that is
  index -1 of an empty vector, so no instance is constructed: the buffer of length 1 is
  never allocated and there is nothing to encode. Decoding a full wire object whose shape
  is [] reaches the same constructor and ends the same way.
\<close>

theorem empty_shape_ctor_out_of_range:
  "Array_ctor3 T [] ty nm = Inl (UB ''vector index out of range'')
   \<and> Array_ctor T [] = Inl (UB ''vector index out of range'')
   \<and> BoolArray_ctor [] = Inl (UB ''vector index out of range'')
   \<and> Array_decode P C_int32 (Array_wire ''int32'' [] ''base64'' (Holder (V_string s)))
       = Some (Inl (UB ''vector index out of range''))"
  by (cases T)
     (simp_all add: Array_ctor_def BoolArray_ctor_def Array_ctor3_def IArray_ctor_empty
        Array_decode_empty_shape)

section \<open>The row-major law for one to 255 dimensions\<close>

text \<open>
  The loop of the constructor keeps the strides above its counter and establishes the law
  \<open>stride[j] = stride[j + 1] * shape[j + 1]\<close> (in \<^verbatim>\<open>uint64_t\<close> arithmetic) below it.
\<close>

lemma stride_loop_law:
  assumes "length strides = n" "n \<le> length shape" "n \<le> 255" "i + 1 < int n" "- 1 \<le> i"
    and "\<forall>j. i < int j \<and> j + 1 < n \<longrightarrow> strides ! j = strides ! (j + 1) * shape ! (j + 1)"
  shows "\<exists>s. stride_loop shape strides i = Inr s \<and> length s = n
           \<and> (\<forall>j. j + 1 < n \<longrightarrow> s ! j = s ! (j + 1) * shape ! (j + 1))
           \<and> (\<forall>j. i < int j \<and> j < n \<longrightarrow> s ! j = strides ! j)"
  using assms
proof (induction shape strides i rule: stride_loop.induct)
  case (1 shape strides i)
  show ?case
  proof (cases "i \<ge> 0")
    case False
    with 1 have "i = - 1" by simp
    with 1 show ?thesis by (simp add: stride_loop_neg)
  next
    case True
    with 1 have a: "size_t_of (i + 1) = nat (i + 1)" "size_t_of i = nat i"
      by (simp_all add: size_t_of_nat)
    from True 1 have r: "nat (i + 1) < length strides" "nat (i + 1) < length shape"
      "nat i < length strides" by simp_all
    let ?st = "strides[nat i := strides ! nat (i + 1) * shape ! nat (i + 1)]"
    have rd: "vec_read strides (size_t_of (i + 1)) = Inr (strides ! nat (i + 1))"
      "vec_read shape (size_t_of (i + 1)) = Inr (shape ! nat (i + 1))"
      using r a by (simp_all add: vec_read_def)
    have wr: "vec_write strides (size_t_of i) (strides ! nat (i + 1) * shape ! nat (i + 1)) = Inr ?st"
      using r a by (simp add: vec_write_def)
    have ni: "nat (i + 1) = nat i + 1" using True by simp
    have inv: "\<forall>j. i - 1 < int j \<and> j + 1 < n \<longrightarrow> ?st ! j = ?st ! (j + 1) * shape ! (j + 1)"
    proof (intro allI impI)
      fix j assume j: "i - 1 < int j \<and> j + 1 < n"
      show "?st ! j = ?st ! (j + 1) * shape ! (j + 1)"
      proof (cases "j = nat i")
        case True
        then show ?thesis using r ni by simp
      next
        case False
        with j True have "i < int j" by linarith
        with j "1.prems"(6) False show ?thesis by simp
      qed
    qed
    have "\<exists>s. stride_loop shape ?st (i - 1) = Inr s \<and> length s = n
           \<and> (\<forall>j. j + 1 < n \<longrightarrow> s ! j = s ! (j + 1) * shape ! (j + 1))
           \<and> (\<forall>j. i - 1 < int j \<and> j < n \<longrightarrow> s ! j = ?st ! j)"
      using True "1.prems" rd wr inv by (intro "1.IH") simp_all
    then obtain s where s: "stride_loop shape ?st (i - 1) = Inr s" "length s = n"
      "\<forall>j. j + 1 < n \<longrightarrow> s ! j = s ! (j + 1) * shape ! (j + 1)"
      "\<forall>j. i - 1 < int j \<and> j < n \<longrightarrow> s ! j = ?st ! j" by blast
    have "\<forall>j. i < int j \<and> j < n \<longrightarrow> s ! j = strides ! j"
    proof (intro allI impI)
      fix j assume j: "i < int j \<and> j < n"
      with True have "j \<noteq> nat i" by linarith
      moreover from j s(4) have "s ! j = ?st ! j" by simp
      ultimately show "s ! j = strides ! j" by simp
    qed
    moreover have "stride_loop shape strides i = Inr s"
      using True rd wr s(1) by (subst stride_loop.simps) simp
    ultimately show ?thesis using s by blast
  qed
qed

lemma IArray_ctor_row_major:
  assumes "0 < length shape" "length shape \<le> 255"
  shows "\<exists>b. IArray_ctor shape = Inr b \<and> m_shape b = shape
           \<and> length (m_strides b) = length shape
           \<and> m_strides b ! (length shape - 1) = 1
           \<and> (\<forall>j. j + 1 < length shape \<longrightarrow>
                 m_strides b ! j = m_strides b ! (j + 1) * shape ! (j + 1))"
proof -
  let ?n = "length shape"
  let ?s0 = "(replicate ?n (0 :: 64 word))[?n - 1 := 1]"
  have u: "unat (of_nat ?n :: 8 word) = ?n" using assms by (simp add: unat8_length)
  have pos: "1 \<le> ?n" using assms(1) by linarith
  have i: "size_t_of (int ?n - 1) = ?n - 1"
    using assms pos by (simp add: size_t_of_nat nat_diff_distrib')
  have w: "vec_write (replicate ?n (0 :: 64 word)) (?n - 1) 1 = Inr ?s0"
    using assms by (simp add: vec_write_def)
  have "\<exists>s. stride_loop shape ?s0 (int ?n - 1 - 1) = Inr s \<and> length s = ?n
           \<and> (\<forall>j. j + 1 < ?n \<longrightarrow> s ! j = s ! (j + 1) * shape ! (j + 1))
           \<and> (\<forall>j. int ?n - 1 - 1 < int j \<and> j < ?n \<longrightarrow> s ! j = ?s0 ! j)"
    using pos assms(2) by (intro stride_loop_law) auto
  then obtain s where s: "stride_loop shape ?s0 (int ?n - 1 - 1) = Inr s" "length s = ?n"
    "\<forall>j. j + 1 < ?n \<longrightarrow> s ! j = s ! (j + 1) * shape ! (j + 1)"
    "\<forall>j. int ?n - 1 - 1 < int j \<and> j < ?n \<longrightarrow> s ! j = ?s0 ! j" by blast
  have l: "s ! (?n - 1) = 1"
    using s(4) [rule_format, of "?n - 1"] assms by simp
  have j: "int (unat (of_nat ?n :: 8 word)) - 1 = int ?n - 1" using u by simp
  show ?thesis
    unfolding IArray_ctor_def Let_def j u i
    using w s l by (simp add: attribute_base.extend_def Attribute_ctor_def)
qed

section \<open>The bounds check of \<^verbatim>\<open>at()\<close> where it works\<close>

text \<open>
  For an array of at most 10 dimensions, the body of \<^verbatim>\<open>at()\<close> throws
  \<^verbatim>\<open>std::out_of_range\<close> when the index of some dimension is negative (or missing), or
  is not below an extent that is not zero; on an array whose \<^verbatim>\<open>m_dimension\<close> exceeds 10
  it always throws. As \<^verbatim>\<open>at()\<close> is declared \<^verbatim>\<open>throw()\<close>, the call then ends in
  \<^verbatim>\<open>std::terminate\<close>: the caller receives no exception.
\<close>

lemma word_pred_less:
  assumes "(x :: 64 word) \<noteq> 0" "x \<le> y"
  shows "y > x - 1"
proof -
  have "unat x \<noteq> 0" using assms(1) by (simp add: unat_eq_zero)
  moreover have "unat (x - 1) = unat x - 1" using assms(1) by (rule unat_minus_one)
  moreover have "unat x \<le> unat y" using assms(2) by (simp add: word_le_nat_alt)
  ultimately have "unat (x - 1) < unat y" by linarith
  then show ?thesis by (simp add: word_less_nat_alt)
qed

lemma at_loop_out_of_range:
  assumes "unat (m_dimension a) \<le> length (m_shape a)"
      and "unat (m_dimension a) \<le> length (m_strides a)"
      and "unat (m_dimension a) \<le> length dim_index"
      and "d < unat (m_dimension a)"
      and "dim_index ! d <s 0 \<or> (m_shape a ! d \<noteq> 0 \<and> m_shape a ! d \<le> dim_index ! d)"
  shows "i \<le> d \<Longrightarrow> at_loop a dim_index i e =
           Inl (Exn (std_out_of_range ''An array index is missing or is out of bounds.''))"
proof (induction "d - i" arbitrary: i e)
  case 0
  then have "i = d" by simp
  have "dim_index ! d <s 0 \<or> dim_index ! d > m_shape a ! d - 1"
    using assms(5) word_pred_less by blast
  with assms \<open>i = d\<close> show ?case
    by (subst at_loop.simps) (auto simp: vec_read_def)
next
  case (Suc n)
  then have "i < d" "Suc i \<le> d" "n = d - Suc i" by simp_all
  with Suc.hyps(1) [of "Suc i"] have
    ih: "\<And>e. at_loop a dim_index (Suc i) e =
           Inl (Exn (std_out_of_range ''An array index is missing or is out of bounds.''))"
    by simp
  from \<open>i < d\<close> assms have "i < unat (m_dimension a)" "i < length (m_shape a)"
    "i < length (m_strides a)" "i < length dim_index" by simp_all
  then show ?case
    by (subst at_loop.simps) (simp add: vec_read_def ih)
qed

lemma Array_at_out_of_range:
  assumes "unat (m_dimension a) \<le> 10"
      and "unat (m_dimension a) \<le> length (m_shape a)"
      and "unat (m_dimension a) \<le> length (m_strides a)"
      and "d < unat (m_dimension a)"
      and "(scast i0 # take 9 (rest @ replicate 9 (- 1))) ! d <s 0
           \<or> (m_shape a ! d \<noteq> 0
               \<and> m_shape a ! d \<le> (scast i0 # take 9 (rest @ replicate 9 (- 1))) ! d)"
  shows "at_index a i0 rest =
           Inl (Exn (std_out_of_range ''An array index is missing or is out of bounds.''))
         \<and> Array_at a i0 rest =
           Inl (Terminated
             (std_out_of_range ''An array index is missing or is out of bounds.''))"
proof -
  have "unat (m_dimension a) \<le> length (scast i0 # take 9 (rest @ replicate 9 (- 1)) :: 64 word list)"
    using assms(1) by simp
  from at_loop_out_of_range [OF assms(2,3) this assms(4,5), of 0 0] assms(1)
  show ?thesis by (simp add: Array_at_def at_index_def declared_throw_none_def)
qed

lemma Array_at_too_many_dimensions:
  "unat (m_dimension a) > 10 \<Longrightarrow>
   Array_at a i0 rest =
     Inl (Terminated (std_out_of_range
       ''The at() method can only be used with arrays of 10 dimensions of less.''))"
  by (simp add: Array_at_def at_index_def declared_throw_none_def)

end
